theory Spec2Isabelle
  imports Complex_Main "HOL-Library.AList"
begin

section \<open>Python values, exceptions and bus messages\<close>

text \<open>
  The values that travel through the skill's mailboxes and message payloads. A Python
  \<^verbatim>\<open>float\<close> is kept as the real number it denotes; a \<^verbatim>\<open>dict\<close> is an association
  list in insertion order.
\<close>

datatype pyval =
    PyNone
  | PyBool bool
  | PyInt int
  | PyFloat real
  | PyStr string
  | PyList "pyval list"
  | PyDict "(string \<times> pyval) list"

text \<open>Python truthiness, as used by \<^verbatim>\<open>if x\<close>, \<^verbatim>\<open>not x\<close> and \<^verbatim>\<open>x or y\<close>.\<close>

fun truthy :: "pyval \<Rightarrow> bool" where
  "truthy PyNone = False"
| "truthy (PyBool b) = b"
| "truthy (PyInt i) = (i \<noteq> 0)"
| "truthy (PyFloat r) = (r \<noteq> 0)"
| "truthy (PyStr t) = (t \<noteq> [])"
| "truthy (PyList vs) = (vs \<noteq> [])"
| "truthy (PyDict kvs) = (kvs \<noteq> [])"

text \<open>
  The exceptions the modelled code can raise. \<open>AbortQuestion\<close> and \<open>AbortEvent\<close> are the
  abort signals of the killable-event machinery; \<open>OtherException r\<close> is any other
  subclass of \<^verbatim>\<open>Exception\<close>, carried with its \<^verbatim>\<open>repr\<close> text \<open>r\<close>.
\<close>

datatype exn =
    AbortQuestion
  | AbortEvent
  | KeyError string
  | IndexError
  | AttributeError string
  | OtherException string


record message =
  msg_type :: string
  msg_data :: "(string \<times> pyval) list"
  msg_context :: "(string \<times> pyval) list"

text \<open>\<^verbatim>\<open>Message(msg_type)\<close> with empty data and context.\<close>

definition Message :: "string \<Rightarrow> message" where
  "Message t = \<lparr>msg_type = t, msg_data = [], msg_context = []\<rparr>"

text \<open>\<^verbatim>\<open>msg.forward(msg_type, data)\<close>: a new message that keeps the context.\<close>

definition forward :: "message \<Rightarrow> string \<Rightarrow> (string \<times> pyval) list \<Rightarrow> message" where
  "forward m t d = \<lparr>msg_type = t, msg_data = d, msg_context = msg_context m\<rparr>"

text \<open>\<^verbatim>\<open>d[k]\<close> on a dict: a missing key raises \<^verbatim>\<open>KeyError\<close>.\<close>

definition getitem :: "(string \<times> 'v) list \<Rightarrow> string \<Rightarrow> exn + 'v" where
  "getitem d k = (case map_of d k of None \<Rightarrow> Inl (KeyError k) | Some v \<Rightarrow> Inr v)"

section \<open>External collaborators\<close>

text \<open>
  The intent container of the padacioso library: the fuzziness flag it was created with
  and the named sample sets added to it.
\<close>

record intent_container =
  fuzz :: bool
  intent_samples :: "(string \<times> string list) list"

definition IntentContainer :: "bool \<Rightarrow> intent_container" where
  "IntentContainer fz = \<lparr>fuzz = fz, intent_samples = []\<rparr>"

definition add_intent :: "string \<Rightarrow> string list \<Rightarrow> intent_container \<Rightarrow> intent_container" where
  "add_intent nm samples c = c\<lparr>intent_samples := intent_samples c @ [(nm, samples)]\<rparr>"

text \<open>The dict returned by \<^verbatim>\<open>calc_intent\<close>; the key \<^verbatim>\<open>conf\<close> may be absent.\<close>

record intent_match =
  match_name :: string
  match_entities :: "(string \<times> pyval) list"
  match_conf :: "real option"


text \<open>
  Library functions and resources that are not part of the repository are parameters:
  the language-tag normaliser, the language-distance metric, the language of a message,
  the scoring function of an intent container, the context of a reply, the session a
  message belongs to, the dialog renderer (if the skill has one) and the contents of the
  intent resource file of a language (if the file exists).
\<close>

record lib =
  standardize_lang_tag :: "string \<Rightarrow> string"
  tag_distance :: "string \<Rightarrow> string \<Rightarrow> nat"
  get_message_lang :: "message \<Rightarrow> string"
  calc_intent :: "intent_container \<Rightarrow> string \<Rightarrow> intent_match"
  reply_context :: "(string \<times> pyval) list \<Rightarrow> (string \<times> pyval) list"
  session_id :: "message \<Rightarrow> string"
  dialog_renderer :: "(string \<Rightarrow> (string \<times> pyval) list \<Rightarrow> string) option"
  intent_file :: "string \<Rightarrow> string \<Rightarrow> string option"

text \<open>\<^verbatim>\<open>message.reply(msg_type, data)\<close>: the context is rewritten by the bus library.\<close>

definition reply :: "lib \<Rightarrow> message \<Rightarrow> string \<Rightarrow> (string \<times> pyval) list \<Rightarrow> message" where
  "reply l m t d = \<lparr>msg_type = t, msg_data = d, msg_context = reply_context l (msg_context m)\<rparr>"

text \<open>
  Modelled from the spec: \<^verbatim>\<open>langcodes.closest_match\<close> is imported by converse.py and is
  not in the repository. It returns the supported language closest to the desired one
  under the language-distance metric, together with that distance; the first language of
  the list wins a tie. On an empty list it returns the undetermined language at distance
  1000 (the code never calls it so).
\<close>

fun closest_match :: "(string \<Rightarrow> string \<Rightarrow> nat) \<Rightarrow> string \<Rightarrow> string list \<Rightarrow> string \<times> nat" where
  "closest_match metric desired [] = (''und'', 1000)"
| "closest_match metric desired [l] = (l, metric desired l)"
| "closest_match metric desired (l # ls) =
     (let (b, bd) = closest_match metric desired ls
      in if metric desired l \<le> bd then (l, metric desired l) else (b, bd))"

section \<open>The skill\<close>

text \<open>
  The fields of the skill object that the modelled methods read or write. The two
  session-keyed mailboxes are dicts from session id to a value: a pending slot holds
  \<^verbatim>\<open>None\<close> or a list of utterances, a validated slot holds any Python value. \<open>bus\<close> is
  the sequence of messages emitted so far, oldest first. \<open>events\<close> are the registered
  event names with their handler.
\<close>

record skill =
  skill_id :: string
  cfg_lang :: "string option"
  native_langs :: "string list"
  strict_intents :: "pyval option"
  min_intent_conf :: "real option"
  converse_timeout :: "real option"
  converse_matchers :: "(string \<times> intent_container) list"
  events :: "(string \<times> string) list"
  responses :: "string \<rightharpoonup> string list option"
  validated_responses :: "string \<rightharpoonup> pyval"
  bus :: "message list"

definition emit :: "message \<Rightarrow> skill \<Rightarrow> skill" where
  "emit m s = s\<lparr>bus := bus s @ [m]\<rparr>"

definition core_lang :: "lib \<Rightarrow> skill \<Rightarrow> string" where
  "core_lang l s = standardize_lang_tag l (case cfg_lang s of None \<Rightarrow> ''en-US'' | Some t \<Rightarrow> t)"

text \<open>
  The \<^verbatim>\<open>lang\<close> property: the language of the message found on the call stack, else the
  configured language. \<open>dug\<close> is what \<^verbatim>\<open>dig_for_message()\<close> finds.
\<close>

definition lang :: "lib \<Rightarrow> skill \<Rightarrow> message option \<Rightarrow> string" where
  "lang l s dug =
     standardize_lang_tag l (case dug of None \<Rightarrow> core_lang l s | Some m \<Rightarrow> get_message_lang l m)"

text \<open>\<^verbatim>\<open>dig_for_message() or Message("")\<close>, then the skill id is put into its context.\<close>

definition with_skill_id :: "skill \<Rightarrow> message option \<Rightarrow> message" where
  "with_skill_id s dug =
     (let msg = (case dug of None \<Rightarrow> Message '''' | Some m \<Rightarrow> m)
      in if map_of (msg_context msg) ''skill_id'' = None
         then msg\<lparr>msg_context := AList.update ''skill_id'' (PyStr (skill_id s)) (msg_context msg)\<rparr>
         else msg)"

subsection \<open>Activation\<close>

text \<open>
  \<^verbatim>\<open>ConversationalSkill.activate\<close>. An omitted duration is the configured converse
  timeout (300 when not configured) divided by 60.
\<close>

definition activate :: "pyval option \<Rightarrow> message option \<Rightarrow> skill \<Rightarrow> skill" where
  "activate duration_minutes dug s =
     (let d = (case duration_minutes of
                 None \<Rightarrow> PyFloat ((case converse_timeout s of None \<Rightarrow> 300 | Some t \<Rightarrow> t) / 60)
               | Some v \<Rightarrow> v);
          msg = with_skill_id s dug;
          m1 = forward msg ''intent.service.skills.activate''
                 [(''skill_id'', PyStr (skill_id s)), (''timeout'', d)]
      in emit m1 s)"

definition deactivate :: "message option \<Rightarrow> skill \<Rightarrow> skill" where
  "deactivate dug s =
     emit (forward (with_skill_id s dug) ''intent.service.skills.deactivate''
             [(''skill_id'', PyStr (skill_id s))]) s"

subsection \<open>Converse intents\<close>

text \<open>
  The sample phrases of an intent resource file, as \<^verbatim>\<open>register_converse_intent\<close> reads
  them: the text is cut at every newline, empty lines and lines that start with \<^verbatim>\<open>#\<close>
  are dropped, and the remaining lines are stripped of surrounding whitespace.
\<close>

fun split_newline :: "string \<Rightarrow> string list" where
  "split_newline [] = [[]]"
| "split_newline (c # cs) =
     (if c = CHR 0x0A then [] # split_newline cs
      else (case split_newline cs of [] \<Rightarrow> [[c]] | row # rows \<Rightarrow> (c # row) # rows))"

definition is_space :: "char \<Rightarrow> bool" where
  "is_space c = (c \<in> set [CHR 0x20, CHR 0x09, CHR 0x0A, CHR 0x0B, CHR 0x0C, CHR 0x0D,
                           CHR 0x1C, CHR 0x1D, CHR 0x1E, CHR 0x1F])"

definition strip :: "string \<Rightarrow> string" where
  "strip t = rev (dropWhile is_space (rev (dropWhile is_space t)))"

definition read_samples :: "string \<Rightarrow> string list" where
  "read_samples txt =
     map strip (filter (\<lambda>row. row \<noteq> [] \<and> hd row \<noteq> CHR ''#'') (split_newline txt))"

definition converse_intent_name :: "skill \<Rightarrow> string \<Rightarrow> string" where
  "converse_intent_name s file = skill_id s @ ''.converse:'' @ file"

text \<open>
  The loop of \<^verbatim>\<open>register_converse_intent\<close> over the native languages: the matcher of
  the language is replaced by a new container, and the samples are added to it when the
  resource file of the language exists.
\<close>

fun register_langs ::
  "lib \<Rightarrow> string \<Rightarrow> bool \<Rightarrow> string \<Rightarrow> string list \<Rightarrow>
   (string \<times> intent_container) list \<Rightarrow> (string \<times> intent_container) list" where
  "register_langs l nm fuzzy file [] ms = ms"
| "register_langs l nm fuzzy file (lg # lgs) ms =
     (let ms1 = AList.update lg (IntentContainer fuzzy) ms
      in case intent_file l lg file of
           None \<Rightarrow> register_langs l nm fuzzy file lgs ms1
         | Some txt \<Rightarrow>
             register_langs l nm fuzzy file lgs
               (AList.map_entry lg (add_intent nm (read_samples txt)) ms1))"

definition add_event :: "string \<Rightarrow> string \<Rightarrow> skill \<Rightarrow> skill" where
  "add_event nm handler s = s\<lparr>events := events s @ [(nm, handler)]\<rparr>"

definition register_converse_intent :: "lib \<Rightarrow> string \<Rightarrow> string \<Rightarrow> skill \<Rightarrow> skill" where
  "register_converse_intent l file handler s =
     (let nm = converse_intent_name s file;
          fuzzy = \<not> truthy (case strict_intents s of None \<Rightarrow> PyBool False | Some v \<Rightarrow> v);
          s1 = s\<lparr>converse_matchers :=
                   register_langs l nm fuzzy file (native_langs s) (converse_matchers s)\<rparr>
      in add_event nm handler s1)"

text \<open>\<^verbatim>\<open>ConversationalSkill._get_closest_lang\<close>.\<close>

definition get_closest_lang :: "lib \<Rightarrow> skill \<Rightarrow> string \<Rightarrow> string option" where
  "get_closest_lang l s lg =
     (if converse_matchers s \<noteq> [] then
        (let (closest, score) =
               closest_match (tag_distance l) (standardize_lang_tag l lg)
                 (map fst (converse_matchers s))
         in if score < 10 then Some closest else None)
      else None)"

text \<open>
  The utterances of a converse request, as the loop over them reads them. A payload
  outside the bus contract (not a list of strings) fails inside the libraries; that
  failure is a \<^verbatim>\<open>TypeError\<close> here.
\<close>

fun str_list :: "pyval list \<Rightarrow> string list option" where
  "str_list [] = Some []"
| "str_list (PyStr t # vs) = map_option ((#) t) (str_list vs)"
| "str_list (_ # vs) = None"

definition data_utterances :: "message \<Rightarrow> exn + string list" where
  "data_utterances m =
     (case getitem (msg_data m) ''utterances'' of
        Inl e \<Rightarrow> Inl e
      | Inr (PyList vs) \<Rightarrow>
          (case str_list vs of None \<Rightarrow> Inl (OtherException ''TypeError()'') | Some us \<Rightarrow> Inr us)
      | Inr _ \<Rightarrow> Inl (OtherException ''TypeError()''))"

text \<open>
  The loop of \<^verbatim>\<open>_handle_converse_intents\<close> over the utterances. Every pass looks the
  matcher up under the skill's current language \<open>cur\<close>.
\<close>

fun score_utterances ::
  "lib \<Rightarrow> skill \<Rightarrow> message \<Rightarrow> string \<Rightarrow> string list \<Rightarrow> real \<times> message option \<Rightarrow>
   exn + (real \<times> message option)" where
  "score_utterances l s m cur [] acc = Inr acc"
| "score_utterances l s m cur (utt # utts) (best_score, response) =
     (case getitem (converse_matchers s) cur of
        Inl e \<Rightarrow> Inl e
      | Inr matcher \<Rightarrow>
          (let mt = calc_intent l matcher utt
           in if (case match_conf mt of None \<Rightarrow> 0 | Some c \<Rightarrow> c) > best_score
              then (case match_conf mt of
                      None \<Rightarrow> Inl (KeyError ''conf'')
                    | Some c \<Rightarrow>
                        score_utterances l s m cur utts
                          (c, Some (forward m (match_name mt) (match_entities mt))))
              else score_utterances l s m cur utts (best_score, response)))"

text \<open>
  \<^verbatim>\<open>ConversationalSkill._handle_converse_intents\<close>. The result is \<^verbatim>\<open>None\<close>, \<^verbatim>\<open>False\<close>
  or \<^verbatim>\<open>True\<close>.
\<close>

definition handle_converse_intents :: "lib \<Rightarrow> message \<Rightarrow> skill \<Rightarrow> exn + (bool option \<times> skill)" where
  "handle_converse_intents l m s =
     (case get_closest_lang l s (lang l s (Some m)) of
        None \<Rightarrow> Inr (None, s)
      | Some lg \<Rightarrow>
          (case data_utterances m of
             Inl e \<Rightarrow> Inl e
           | Inr utts \<Rightarrow>
               (case score_utterances l s m (lang l s (Some m)) utts (0, None) of
                  Inl e \<Rightarrow> Inl e
                | Inr (best_score, response) \<Rightarrow>
                    (case response of
                       None \<Rightarrow> Inr (Some False, s)
                     | Some r \<Rightarrow>
                         if best_score < (case min_intent_conf s of None \<Rightarrow> 0.5 | Some c \<Rightarrow> c)
                         then Inr (Some False, s)
                         else Inr (Some True, emit r s)))))"







section \<open>Response collection\<close>

subsection \<open>Speaking\<close>

text \<open>
  \<^verbatim>\<open>OVOSSkill.speak\<close>: one \<^verbatim>\<open>speak\<close> message on the bus. \<open>dug\<close> is the message found
  on the call stack. Blocking until the speech ends does not change the skill. The
  callers modelled here never pass translation metadata.
\<close>

definition speak ::
  "lib \<Rightarrow> pyval \<Rightarrow> bool \<Rightarrow> (string \<times> pyval) list \<Rightarrow> message option \<Rightarrow> skill \<Rightarrow> skill" where
  "speak l utterance expect_response meta dug s =
     (let meta1 = AList.update ''skill'' (PyStr (skill_id s)) meta;
          dat = [(''utterance'', utterance), (''expect_response'', PyBool expect_response),
                 (''meta'', PyDict meta1), (''lang'', PyStr (lang l s dug))];
          m = (case dug of
                 Some msg \<Rightarrow> forward msg ''speak'' dat
               | None \<Rightarrow> \<lparr>msg_type = ''speak'', msg_data = dat, msg_context = []\<rparr>)
      in emit (m\<lparr>msg_context := AList.update ''skill_id'' (PyStr (skill_id s)) (msg_context m)\<rparr>) s)"

definition speak_dialog ::
  "lib \<Rightarrow> string \<Rightarrow> (string \<times> pyval) list \<Rightarrow> bool \<Rightarrow> message option \<Rightarrow> skill \<Rightarrow> skill" where
  "speak_dialog l key dat expect_response dug s =
     (case dialog_renderer l of
        Some render \<Rightarrow>
          speak l (PyStr (render key dat)) expect_response
            [(''dialog'', PyStr key), (''data'', PyDict dat)] dug s
      | None \<Rightarrow> speak l (PyStr key) expect_response [] dug s)"

subsection \<open>The mailboxes and what happens during a wait\<close>

text \<open>\<^verbatim>\<open>OVOSSkill.__handle_get_response\<close>: an utterance delivery for session \<open>sid\<close>.\<close>

definition handle_get_response :: "string \<Rightarrow> string list \<Rightarrow> skill \<Rightarrow> skill" where
  "handle_get_response sid utterances s =
     (if responses s sid = None then s
      else s\<lparr>responses := (responses s)(sid \<mapsto> Some utterances)\<rparr>)"

text \<open>
  \<^verbatim>\<open>OVOSSkill._handle_killed_wait_response\<close>, the callback of a killed collection.
  \<open>dug\<close> is the message found on the call stack; without one, \<^verbatim>\<open>message.forward\<close>
  fails after the mailboxes were overwritten.
\<close>

datatype worker = Returned skill | Died exn skill

fun worker_state :: "worker \<Rightarrow> skill" where
  "worker_state (Returned s) = s"
| "worker_state (Died e s) = s"

definition handle_killed_wait_response :: "message option \<Rightarrow> skill \<Rightarrow> worker" where
  "handle_killed_wait_response dug s =
     (let s1 = s\<lparr>responses := map_option (\<lambda>_. None) \<circ> responses s,
                  validated_responses := map_option (\<lambda>_. PyNone) \<circ> validated_responses s\<rparr>
      in case dug of
           None \<Rightarrow> Died (AttributeError ''forward'') s1
         | Some m \<Rightarrow> Returned (emit (forward m (skill_id s @ ''.get_response.killed'') []) s1))"

text \<open>
  What the other threads do while the collector waits in one call of
  \<^verbatim>\<open>__get_response\<close>: nothing before the timeout, an utterance delivery, a session stop
  that succeeded (the assignment at the end of \<^verbatim>\<open>_handle_session_stop\<close>), or an abort.

  Modelled from the spec: the \<^verbatim>\<open>killable_event\<close> decorator
  (ovos_workshop/decorators/killable.py) is not in src. On an abort request it unwinds
  the worker from its current suspension point and then runs the registered callback,
  here \<open>handle_killed_wait_response\<close>, with the abort message on the call stack.
\<close>

datatype wait_event = Timeout | Heard "string list" | Stopped | Aborted message

fun deliver :: "wait_event \<Rightarrow> string \<Rightarrow> skill \<Rightarrow> skill" where
  "deliver Timeout sid s = s"
| "deliver (Heard utterances) sid s = handle_get_response sid utterances s"
| "deliver Stopped sid s = s\<lparr>responses := (responses s)(sid \<mapsto> None)\<rparr>"
| "deliver (Aborted m) sid s = s"

text \<open>
  \<^verbatim>\<open>OVOSSkill.__get_response\<close>: the value of the pending slot when the wait ends, which
  is the empty list after a timeout.
\<close>

definition get_response_wait :: "wait_event \<Rightarrow> string \<Rightarrow> skill \<Rightarrow> exn + (string list option \<times> skill)" where
  "get_response_wait ev sid s =
     (let s1 = deliver ev sid s
      in case responses s1 sid of
           None \<Rightarrow> Inl (KeyError sid)
         | Some ans \<Rightarrow> Inr (ans, s1))"

subsection \<open>Validation\<close>

record wait_args =
  is_cancel :: "string \<Rightarrow> bool"
  validator :: "string \<Rightarrow> pyval"
  on_fail :: "string list \<Rightarrow> pyval"
  num_retries :: int

text \<open>\<^verbatim>\<open>OVOSSkill._validate_response\<close>; the result is the reprompt to speak.\<close>

definition validate_response :: "string list \<Rightarrow> string \<Rightarrow> wait_args \<Rightarrow> skill \<Rightarrow> exn + (pyval \<times> skill)" where
  "validate_response response sid a s =
     (case response of
        [] \<Rightarrow> Inl IndexError
      | ans # _ \<Rightarrow>
          if is_cancel a ans
          then Inr (PyNone, s\<lparr>responses := (responses s)(sid \<mapsto> None),
                               validated_responses := (validated_responses s)(sid \<mapsto> PyNone)\<rparr>)
          else
            (let validated = validator a ans
             in if \<not> truthy validated
                then Inr (on_fail a response, s\<lparr>responses := (responses s)(sid \<mapsto> Some [])\<rparr>)
                else Inr (PyNone,
                          s\<lparr>validated_responses := (validated_responses s)
                               (sid \<mapsto> (if validated = PyBool True then PyStr ans else validated)),
                            responses := (responses s)(sid \<mapsto> None)\<rparr>)))"

subsection \<open>The worker\<close>

text \<open>
  One pass of the \<^verbatim>\<open>while True\<close> loop of \<^verbatim>\<open>OVOSSkill._real_wait_response\<close>: the worker
  returns, or goes on with a new value of \<^verbatim>\<open>num_fails\<close> after a reprompt, or dies with
  an exception.
\<close>

datatype cycle = Finished skill | Again int skill | Failed exn skill

definition stop_trying :: "string \<Rightarrow> skill \<Rightarrow> skill" where
  "stop_trying sid s =
     s\<lparr>responses := (responses s)(sid \<mapsto> None),
       validated_responses := (validated_responses s)(sid \<mapsto> PyNone)\<rparr>"

definition reprompt_user :: "lib \<Rightarrow> message \<Rightarrow> string \<Rightarrow> pyval \<Rightarrow> int \<Rightarrow> skill \<Rightarrow> cycle" where
  "reprompt_user l message sid reprompt num_fails s =
     (if (case responses s sid of None \<Rightarrow> True | Some None \<Rightarrow> True | Some (Some _) \<Rightarrow> False)
      then Finished s
      else if truthy reprompt
      then Again num_fails (speak l reprompt True [] (Some message) s)
      else Again num_fails (emit (reply l message ''mycroft.mic.listen'' []) s))"

definition wait_cycle ::
  "lib \<Rightarrow> wait_event \<Rightarrow> wait_args \<Rightarrow> message \<Rightarrow> string \<Rightarrow> int \<Rightarrow> skill \<Rightarrow> cycle" where
  "wait_cycle l ev a message sid num_fails s =
     (case get_response_wait ev sid s of
        Inl e \<Rightarrow> Failed e s
      | Inr (None, s1) \<Rightarrow> Finished s1
      | Inr (Some response, s1) \<Rightarrow>
          if response \<noteq> []
          then (case validate_response response sid a s1 of
                  Inl e \<Rightarrow> Failed e s1
                | Inr (reprompt, s2) \<Rightarrow>
                    reprompt_user l message sid reprompt
                      (if truthy reprompt then 0 else num_fails) s2)
          else reprompt_user l message sid PyNone (num_fails + 1)
                 (if num_fails + 1 \<ge> num_retries a \<and> num_retries a \<ge> 0
                  then stop_trying sid s1 else s1))"

text \<open>
  The loop. \<open>env k\<close> is what happens during the \<open>k\<close>-th wait. The loop may never end, so
  it runs on fuel: \<open>None\<close> means that the worker is still waiting after \<open>fuel\<close> waits.
\<close>

fun real_wait_loop ::
  "nat \<Rightarrow> lib \<Rightarrow> (nat \<Rightarrow> wait_event) \<Rightarrow> wait_args \<Rightarrow> message \<Rightarrow> string \<Rightarrow>
   nat \<Rightarrow> int \<Rightarrow> skill \<Rightarrow> worker option" where
  "real_wait_loop 0 l env a message sid k num_fails s = None"
| "real_wait_loop (Suc fuel) l env a message sid k num_fails s =
     (case env k of
        Aborted am \<Rightarrow> Some (handle_killed_wait_response (Some am) s)
      | ev \<Rightarrow>
          (case wait_cycle l ev a message sid num_fails s of
             Finished s1 \<Rightarrow> Some (Returned s1)
           | Failed e s1 \<Rightarrow> Some (Died e s1)
           | Again num_fails1 s1 \<Rightarrow>
               real_wait_loop fuel l env a message sid (Suc k) num_fails1 s1))"

text \<open>
  \<^verbatim>\<open>OVOSSkill._real_wait_response\<close>: the worker announces that it waits, sets the
  validated slot of the session to the empty list and enters the loop.
\<close>

definition real_wait_begin :: "lib \<Rightarrow> message \<Rightarrow> skill \<Rightarrow> skill" where
  "real_wait_begin l message s =
     (let s1 = emit (forward message (skill_id s @ ''.get_response.waiting'') []) s
      in s1\<lparr>validated_responses := (validated_responses s1)(session_id l message \<mapsto> PyList [])\<rparr>)"

definition real_wait_response ::
  "nat \<Rightarrow> lib \<Rightarrow> (nat \<Rightarrow> wait_event) \<Rightarrow> wait_args \<Rightarrow> message \<Rightarrow> skill \<Rightarrow> worker option" where
  "real_wait_response fuel l env a message s =
     real_wait_loop fuel l env a message (session_id l message) 0 0 (real_wait_begin l message s)"

text \<open>
  The worker after \<open>j\<close> waits that each ended in a reprompt, starting at wait \<open>k\<close>: the
  value of \<^verbatim>\<open>num_fails\<close> and the skill then, and \<open>None\<close> when one of these waits ends
  the loop.
\<close>

fun advance ::
  "nat \<Rightarrow> lib \<Rightarrow> (nat \<Rightarrow> wait_event) \<Rightarrow> wait_args \<Rightarrow> message \<Rightarrow> string \<Rightarrow>
   nat \<Rightarrow> int \<Rightarrow> skill \<Rightarrow> (int \<times> skill) option" where
  "advance 0 l env a message sid k num_fails s = Some (num_fails, s)"
| "advance (Suc j) l env a message sid k num_fails s =
     (case env k of
        Aborted am \<Rightarrow> None
      | ev \<Rightarrow>
          (case wait_cycle l ev a message sid num_fails s of
             Again num_fails1 s1 \<Rightarrow> advance j l env a message sid (Suc k) num_fails1 s1
           | _ \<Rightarrow> None))"

subsection \<open>The caller\<close>

text \<open>
  The poll loop of \<^verbatim>\<open>OVOSSkill._wait_response\<close>, looking at the validated slot once the
  worker has stopped: it leaves with the slot's value when that is truthy or \<^verbatim>\<open>None\<close>
  (also when the key is absent), and never leaves otherwise (\<open>None\<close> here).
\<close>

definition poll_validated :: "string \<Rightarrow> skill \<Rightarrow> pyval option" where
  "poll_validated sid s =
     (let ans = (case validated_responses s sid of None \<Rightarrow> PyNone | Some v \<Rightarrow> v)
      in if truthy ans \<or> ans = PyNone then Some ans else None)"

text \<open>\<^verbatim>\<open>if isinstance(ans, list): ans = ans[0]\<close>, on a value that left the poll loop.\<close>

fun first_of_list :: "pyval \<Rightarrow> pyval" where
  "first_of_list (PyList (v # vs)) = v"
| "first_of_list v = v"

text \<open>
  \<^verbatim>\<open>OVOSSkill._wait_response\<close>: the worker runs in its own thread, the caller polls and
  removes the validated slot. \<open>None\<close> means that the caller never gets an answer.
\<close>

definition wait_response ::
  "nat \<Rightarrow> lib \<Rightarrow> (nat \<Rightarrow> wait_event) \<Rightarrow> wait_args \<Rightarrow> message \<Rightarrow> skill \<Rightarrow> (pyval \<times> skill) option" where
  "wait_response fuel l env a message s =
     (case real_wait_response fuel l env a message s of
        None \<Rightarrow> None
      | Some w \<Rightarrow>
          (let s1 = worker_state w; sid = session_id l message
           in case poll_validated sid s1 of
                None \<Rightarrow> None
              | Some ans \<Rightarrow>
                  Some (first_of_list ans,
                        s1\<lparr>validated_responses := (validated_responses s1)(sid := None)\<rparr>)))"

text \<open>
  The arguments of \<^verbatim>\<open>get_response\<close>: \<open>on_fail\<close> is absent, a text or a function.
  \<open>on_fail_default\<close> is the reprompt used when it is not a function.
\<close>

datatype on_fail_arg = NoOnFail | OnFailText string | OnFailFn "string list \<Rightarrow> pyval"

definition render_or_text :: "lib \<Rightarrow> string \<Rightarrow> (string \<times> pyval) list \<Rightarrow> pyval" where
  "render_or_text l key dat =
     (case dialog_renderer l of Some render \<Rightarrow> PyStr (render key dat) | None \<Rightarrow> PyStr key)"

definition on_fail_default ::
  "lib \<Rightarrow> string \<Rightarrow> (string \<times> pyval) list \<Rightarrow> on_fail_arg \<Rightarrow> string list \<Rightarrow> pyval" where
  "on_fail_default l dialog dat on_fail_p utterance =
     (let fail_data = AList.update ''utterance'' (PyList (map PyStr utterance)) dat
      in case on_fail_p of
           OnFailText t \<Rightarrow>
             (if t \<noteq> [] then render_or_text l t fail_data else render_or_text l dialog dat)
         | _ \<Rightarrow> render_or_text l dialog dat)"

text \<open>
  \<^verbatim>\<open>OVOSSkill.get_response\<close>. \<open>cancel_voc\<close> tells which utterances
  \<^verbatim>\<open>voc_match\<close> finds in the cancel vocabulary of the session's language; \<open>message_p\<close>
  is the \<^verbatim>\<open>message\<close> argument and \<open>dug\<close> the message on the call stack.
\<close>

definition get_response_message :: "skill \<Rightarrow> message option \<Rightarrow> message option \<Rightarrow> message" where
  "get_response_message s message_p dug =
     (case message_p of
        Some m \<Rightarrow> m
      | None \<Rightarrow>
          (case dug of
             Some m \<Rightarrow> m
           | None \<Rightarrow> \<lparr>msg_type = ''mycroft.mic.listen'', msg_data = [],
                      msg_context = [(''skill_id'', PyStr (skill_id s))]\<rparr>))"

definition get_response_args ::
  "lib \<Rightarrow> (string \<Rightarrow> bool) \<Rightarrow> string \<Rightarrow> (string \<times> pyval) list \<Rightarrow> (string \<Rightarrow> pyval) option \<Rightarrow>
   on_fail_arg \<Rightarrow> int \<Rightarrow> wait_args" where
  "get_response_args l cancel_voc dialog dat validator_p on_fail_p retries =
     \<lparr>is_cancel = cancel_voc,
      validator = (case validator_p of
                     Some v \<Rightarrow> v
                   | None \<Rightarrow> (\<lambda>utterance. PyBool (\<not> cancel_voc utterance))),
      on_fail = (case on_fail_p of
                   OnFailFn f \<Rightarrow> f
                 | _ \<Rightarrow> on_fail_default l dialog dat on_fail_p),
      num_retries = retries\<rparr>"

text \<open>
  The part of \<^verbatim>\<open>get_response\<close> before the wait: the pending slot, the notification
  and the prompt. The response-mode flag lives in the session object of the bus library
  and is not part of the skill.
\<close>

definition get_response_begin ::
  "lib \<Rightarrow> string \<Rightarrow> (string \<times> pyval) list \<Rightarrow> message \<Rightarrow> skill \<Rightarrow> skill" where
  "get_response_begin l dialog dat message s =
     (let sid = session_id l message;
          s1 = s\<lparr>responses := (responses s)(sid \<mapsto> Some [])\<rparr>;
          s2 = emit (forward message ''skill.converse.get_response.enable''
                       [(''skill_id'', PyStr (skill_id s))]) s1
      in if dialog \<noteq> []
         then speak_dialog l dialog dat True (Some message) s2
         else emit (forward message ''mycroft.mic.listen'' []) s2)"

definition get_response ::
  "nat \<Rightarrow> lib \<Rightarrow> (nat \<Rightarrow> wait_event) \<Rightarrow> (string \<Rightarrow> bool) \<Rightarrow> string \<Rightarrow> (string \<times> pyval) list \<Rightarrow>
   (string \<Rightarrow> pyval) option \<Rightarrow> on_fail_arg \<Rightarrow> int \<Rightarrow> message option \<Rightarrow> message option \<Rightarrow>
   skill \<Rightarrow> (pyval \<times> skill) option" where
  "get_response fuel l env cancel_voc dialog dat validator_p on_fail_p retries message_p dug s =
     (let message = get_response_message s message_p dug;
          a = get_response_args l cancel_voc dialog dat validator_p on_fail_p retries
      in case wait_response fuel l env a message (get_response_begin l dialog dat message s) of
           None \<Rightarrow> None
         | Some (ans, s1) \<Rightarrow>
             Some (ans, emit (forward message ''skill.converse.get_response.disable''
                                [(''skill_id'', PyStr (skill_id s))]) s1))"

text \<open>
  The collection started by \<open>get_response\<close> after \<open>j\<close> waits that each ended in a
  reprompt: \<open>None\<close> when the collection ends earlier.
\<close>

definition reprompted ::
  "nat \<Rightarrow> lib \<Rightarrow> (nat \<Rightarrow> wait_event) \<Rightarrow> (string \<Rightarrow> bool) \<Rightarrow> string \<Rightarrow> (string \<times> pyval) list \<Rightarrow>
   (string \<Rightarrow> pyval) option \<Rightarrow> on_fail_arg \<Rightarrow> int \<Rightarrow> message option \<Rightarrow> message option \<Rightarrow>
   skill \<Rightarrow> (int \<times> skill) option" where
  "reprompted j l env cancel_voc dialog dat validator_p on_fail_p retries message_p dug s =
     (let message = get_response_message s message_p dug;
          a = get_response_args l cancel_voc dialog dat validator_p on_fail_p retries
      in advance j l env a message (session_id l message) 0 0
           (real_wait_begin l message (get_response_begin l dialog dat message s)))"

section \<open>A sample skill\<close>

text \<open>
  Concrete collaborators and a concrete skill, on which the theorems below are run. The
  sample metric puts equal tags at distance 0, tags of the same language (the same first
  two letters) at distance 4 and all others at distance 100; the sample matcher gives
  confidence 1 to an utterance that is one of the samples of an intent of the container.
\<close>

definition sample_distance :: "string \<Rightarrow> string \<Rightarrow> nat" where
  "sample_distance a b = (if a = b then 0 else if take 2 a = take 2 b then 4 else 100)"

fun sample_calc_intent :: "(string \<times> string list) list \<Rightarrow> string \<Rightarrow> intent_match" where
  "sample_calc_intent [] utt = \<lparr>match_name = [], match_entities = [], match_conf = None\<rparr>"
| "sample_calc_intent ((nm, samples) # rest) utt =
     (if utt \<in> set samples
      then \<lparr>match_name = nm, match_entities = [], match_conf = Some 1\<rparr>
      else sample_calc_intent rest utt)"

definition sample_message_lang :: "message \<Rightarrow> string" where
  "sample_message_lang m = (case map_of (msg_data m) ''lang'' of Some (PyStr t) \<Rightarrow> t | _ \<Rightarrow> ''en-US'')"

definition sample_intent_file :: "string \<Rightarrow> string \<Rightarrow> string option" where
  "sample_intent_file lg file =
     (if lg = ''en-GB'' \<and> file = ''yes.intent'' then Some (''yes'' @ [CHR 0x0A] @ ''# comment'' @ [CHR 0x0A] @ ''yeah sure '')
      else if lg = ''en-GB'' \<and> file = ''no.intent'' then Some ''no''
      else None)"

definition sample_lib :: lib where
  "sample_lib =
     \<lparr>standardize_lang_tag = (\<lambda>t. t),
      tag_distance = sample_distance,
      get_message_lang = sample_message_lang,
      calc_intent = (\<lambda>c. sample_calc_intent (intent_samples c)),
      reply_context = (\<lambda>c. c),
      session_id = (\<lambda>m. ''default''),
      dialog_renderer = None,
      intent_file = sample_intent_file\<rparr>"

definition sample_skill :: skill where
  "sample_skill =
     \<lparr>skill_id = ''demo'', cfg_lang = None, native_langs = [''en-GB''],
      strict_intents = None, min_intent_conf = None, converse_timeout = None,
      converse_matchers = [], events = [],
      responses = Map.empty, validated_responses = Map.empty, bus = []\<rparr>"

definition sample_request :: "string \<Rightarrow> string list \<Rightarrow> message" where
  "sample_request lg utts =
     \<lparr>msg_type = ''demo.converse.request'',
      msg_data = [(''utterances'', PyList (map PyStr utts)), (''lang'', PyStr lg)],
      msg_context = []\<rparr>"

text \<open>
  Sample surroundings of a collection: nothing is ever heard; the same utterances are
  heard in every wait; an abort arrives during the second wait; the first wait times
  out and \<^verbatim>\<open>maybe\<close> is heard in every later one. The sample cancel
  vocabulary is the word \<^verbatim>\<open>cancel\<close>. The sample validators map \<^verbatim>\<open>yeah sure\<close> to
  \<^verbatim>\<open>yes\<close>, accept everything with \<^verbatim>\<open>True\<close>, and answer with a list.
\<close>

definition silence :: "nat \<Rightarrow> wait_event" where
  "silence k = Timeout"

definition hears :: "string list \<Rightarrow> nat \<Rightarrow> wait_event" where
  "hears utts k = Heard utts"

definition sample_cancel :: "string \<Rightarrow> bool" where
  "sample_cancel utt = (utt = ''cancel'')"

definition yes_validator :: "string \<Rightarrow> pyval" where
  "yes_validator utt = (if utt = ''yeah sure'' then PyStr ''yes'' else PyBool False)"

definition true_validator :: "string \<Rightarrow> pyval" where
  "true_validator utt = PyBool True"

definition list_validator :: "string \<Rightarrow> pyval" where
  "list_validator utt = PyList [PyStr ''yes'', PyStr ''no'']"

definition sample_on_fail :: "string list \<Rightarrow> pyval" where
  "sample_on_fail utts = PyStr ''please repeat''"

definition sample_args :: wait_args where
  "sample_args = \<lparr>is_cancel = sample_cancel, validator = yes_validator,
                   on_fail = sample_on_fail, num_retries = 2\<rparr>"

definition waiting_skill :: skill where
  "waiting_skill = sample_skill\<lparr>responses := [''default'' \<mapsto> Some []]\<rparr>"

definition timeout_then_maybe :: "nat \<Rightarrow> wait_event" where
  "timeout_then_maybe k = (if k = 0 then Timeout else Heard [''maybe''])"

definition sample_listen :: message where
  "sample_listen = \<lparr>msg_type = ''mycroft.mic.listen'', msg_data = [], msg_context = []\<rparr>"



section \<open>Activation request\<close>

text \<open>
  Claim C3, as the code has it. Every call of \<open>activate\<close> emits exactly one message, of
  type \<^verbatim>\<open>intent.service.skills.activate\<close>, whose payload holds the skill id and, under
  the key \<^verbatim>\<open>timeout\<close>, the duration: the given value as it is (so -1 is passed on
  unchanged), and the configured converse timeout divided by 60 when the duration is
  omitted. The division of Python floats is taken as exact.
\<close>

theorem activate_emits_request:
  "bus (activate duration_minutes dug s) =
     bus s @ [\<lparr>msg_type = ''intent.service.skills.activate'',
               msg_data = [(''skill_id'', PyStr (skill_id s)),
                           (''timeout'', (case duration_minutes of
                                Some v \<Rightarrow> v
                              | None \<Rightarrow> PyFloat ((case converse_timeout s of None \<Rightarrow> 300 | Some t \<Rightarrow> t) / 60)))],
               msg_context = msg_context (with_skill_id s dug)\<rparr>]"
  by (simp add: activate_def emit_def forward_def Let_def split: option.splits)

theorem activate_witness:
  "bus (activate None None sample_skill) =
     [\<lparr>msg_type = ''intent.service.skills.activate'',
       msg_data = [(''skill_id'', PyStr ''demo''), (''timeout'', PyFloat 5)],
       msg_context = [(''skill_id'', PyStr ''demo'')]\<rparr>]"
  using activate_emits_request [of None None sample_skill]
  by (simp add: sample_skill_def with_skill_id_def Message_def)

text \<open>
  Claim C3 as stated fails: the payload has no key \<^verbatim>\<open>timeout_minutes\<close>; the sample
  skill activated for 5 minutes sends the 5 under \<^verbatim>\<open>timeout\<close>.
\<close>

theorem activate_key_counterexample:
  "map_of (msg_data (last (bus (activate (Some (PyInt 5)) None sample_skill)))) ''timeout_minutes'' = None
   \<and> map_of (msg_data (last (bus (activate (Some (PyInt 5)) None sample_skill)))) ''timeout'' = Some (PyInt 5)"
  by (simp add: activate_def emit_def forward_def Let_def sample_skill_def)

section \<open>Language resolution\<close>

lemma closest_match_nonempty:
  "ls \<noteq> [] \<Longrightarrow>
     fst (closest_match d q ls) \<in> set ls \<and>
     snd (closest_match d q ls) = d q (fst (closest_match d q ls)) \<and>
     (\<forall>x\<in>set ls. snd (closest_match d q ls) \<le> d q x)"
  by (induction d q ls rule: closest_match.induct) (auto simp: Let_def split_beta)

lemma closest_match_Min:
  assumes "ls \<noteq> []"
  shows "snd (closest_match d q ls) = Min (d q ` set ls)"
proof -
  from closest_match_nonempty [OF assms, of d q]
  have a: "fst (closest_match d q ls) \<in> set ls"
    and b: "snd (closest_match d q ls) = d q (fst (closest_match d q ls))"
    and c: "\<forall>x\<in>set ls. snd (closest_match d q ls) \<le> d q x" by auto
  show ?thesis
  proof (rule Min_eqI [symmetric])
    show "finite (d q ` set ls)" by simp
    show "\<And>y. y \<in> d q ` set ls \<Longrightarrow> snd (closest_match d q ls) \<le> y" using c by auto
    show "snd (closest_match d q ls) \<in> d q ` set ls" using a b by auto
  qed
qed

text \<open>
  Claim C7. With matchers registered, \<open>get_closest_lang\<close> returns a registered language
  at minimal distance from the standardized requested tag when that minimal distance is
  below 10, and \<^verbatim>\<open>None\<close> when it is 10 or more or when no matcher is registered. In
  particular \<^verbatim>\<open>en-US\<close> against the single registered language \<^verbatim>\<open>fr-FR\<close> gives
  \<^verbatim>\<open>None\<close>, for every metric that puts the two at distance 10 or more.
\<close>

theorem get_closest_lang_threshold:
  "(converse_matchers s \<noteq> [] \<and>
    Min (tag_distance l (standardize_lang_tag l lg) ` fst ` set (converse_matchers s)) < 10 \<longrightarrow>
      (\<exists>c. get_closest_lang l s lg = Some c \<and> c \<in> fst ` set (converse_matchers s) \<and>
           tag_distance l (standardize_lang_tag l lg) c =
             Min (tag_distance l (standardize_lang_tag l lg) ` fst ` set (converse_matchers s)))) \<and>
   (converse_matchers s = [] \<or>
    10 \<le> Min (tag_distance l (standardize_lang_tag l lg) ` fst ` set (converse_matchers s)) \<longrightarrow>
      get_closest_lang l s lg = None) \<and>
   (10 \<le> tag_distance l (standardize_lang_tag l ''en-US'') ''fr-FR'' \<longrightarrow>
      get_closest_lang l (s\<lparr>converse_matchers := [(''fr-FR'', c0)]\<rparr>) ''en-US'' = None)"
proof (intro conjI impI)
  assume h: "converse_matchers s \<noteq> [] \<and>
    Min (tag_distance l (standardize_lang_tag l lg) ` fst ` set (converse_matchers s)) < 10"
  then have ne: "map fst (converse_matchers s) \<noteq> []" by simp
  from closest_match_nonempty [OF ne, of "tag_distance l" "standardize_lang_tag l lg"]
    closest_match_Min [OF ne, of "tag_distance l" "standardize_lang_tag l lg"] h
  show "\<exists>c. get_closest_lang l s lg = Some c \<and> c \<in> fst ` set (converse_matchers s) \<and>
           tag_distance l (standardize_lang_tag l lg) c =
             Min (tag_distance l (standardize_lang_tag l lg) ` fst ` set (converse_matchers s))"
    by (auto simp: get_closest_lang_def split_beta)
next
  assume h: "converse_matchers s = [] \<or>
    10 \<le> Min (tag_distance l (standardize_lang_tag l lg) ` fst ` set (converse_matchers s))"
  show "get_closest_lang l s lg = None"
  proof (cases "converse_matchers s = []")
    case True then show ?thesis by (simp add: get_closest_lang_def)
  next
    case False
    then have ne: "map fst (converse_matchers s) \<noteq> []" by simp
    have "snd (closest_match (tag_distance l) (standardize_lang_tag l lg) (map fst (converse_matchers s)))
          = Min (tag_distance l (standardize_lang_tag l lg) ` fst ` set (converse_matchers s))"
      using closest_match_Min [OF ne, of "tag_distance l" "standardize_lang_tag l lg"] by simp
    with h False
    have "\<not> snd (closest_match (tag_distance l) (standardize_lang_tag l lg) (map fst (converse_matchers s))) < 10"
      by linarith
    then show ?thesis by (simp add: get_closest_lang_def split_beta)
  qed
next
  assume "10 \<le> tag_distance l (standardize_lang_tag l ''en-US'') ''fr-FR''"
  then show "get_closest_lang l (s\<lparr>converse_matchers := [(''fr-FR'', c0)]\<rparr>) ''en-US'' = None"
    by (simp add: get_closest_lang_def)
qed

theorem get_closest_lang_threshold_witness:
  "get_closest_lang sample_lib (sample_skill\<lparr>converse_matchers := [(''en-GB'', IntentContainer True)]\<rparr>) ''en-US'' = Some ''en-GB''
   \<and> get_closest_lang sample_lib (sample_skill\<lparr>converse_matchers := []\<rparr>) ''en-US'' = None
   \<and> get_closest_lang sample_lib (sample_skill\<lparr>converse_matchers := [(''fr-FR'', IntentContainer True)]\<rparr>) ''en-US'' = None"
  using get_closest_lang_threshold [of "sample_skill\<lparr>converse_matchers := [(''en-GB'', IntentContainer True)]\<rparr>" sample_lib "''en-US''" "IntentContainer True"]
        get_closest_lang_threshold [of "sample_skill\<lparr>converse_matchers := []\<rparr>" sample_lib "''en-US''" "IntentContainer True"]
  by (simp add: sample_lib_def sample_distance_def)

section \<open>Registering converse intents\<close>

lemma register_langs_other:
  "lg \<notin> set lgs \<Longrightarrow> map_of (register_langs l nm fuzzy file lgs ms) lg = map_of ms lg"
  by (induction lgs arbitrary: ms)
     (auto simp: Let_def update_conv' map_of_map_entry split: option.splits)

lemma register_langs_member:
  "lg \<in> set lgs \<Longrightarrow>
   map_of (register_langs l nm fuzzy file lgs ms) lg =
     Some (case intent_file l lg file of
             None \<Rightarrow> IntentContainer fuzzy
           | Some txt \<Rightarrow> add_intent nm (read_samples txt) (IntentContainer fuzzy))"
proof (induction lgs arbitrary: ms)
  case Nil
  then show ?case by simp
next
  case (Cons a lgs)
  show ?case
  proof (cases "lg \<in> set lgs")
    case True
    with Cons.IH show ?thesis by (simp add: Let_def split: option.splits)
  next
    case False
    with Cons.prems have "a = lg" by simp
    with False show ?thesis
      by (simp add: Let_def register_langs_other update_conv' map_of_map_entry split: option.splits)
  qed
qed

lemma register_langs_keys:
  "fst ` set (register_langs l nm fuzzy file lgs ms) = fst ` set ms \<union> set lgs"
proof (induction lgs arbitrary: ms)
  case Nil
  then show ?case by simp
next
  case (Cons a lgs)
  show ?case
  proof (cases "intent_file l a file")
    case None
    then have "register_langs l nm fuzzy file (a # lgs) ms =
               register_langs l nm fuzzy file lgs (AList.update a (IntentContainer fuzzy) ms)"
      by (simp add: Let_def)
    then show ?thesis by (simp add: Cons.IH dom_update Un_assoc insert_commute)
  next
    case (Some body)
    then have "register_langs l nm fuzzy file (a # lgs) ms =
               register_langs l nm fuzzy file lgs
                 (AList.map_entry a (add_intent nm (read_samples body))
                    (AList.update a (IntentContainer fuzzy) ms))"
      by (simp add: Let_def)
    then show ?thesis by (simp add: Cons.IH dom_update dom_map_entry Un_assoc insert_commute)
  qed
qed

lemma register_converse_intent_keys:
  "fst ` set (converse_matchers (register_converse_intent l file handler s)) =
     fst ` set (converse_matchers s) \<union> set (native_langs s)"
  by (simp add: register_converse_intent_def add_event_def Let_def register_langs_keys)

lemma register_converse_intent_native:
  "native_langs (register_converse_intent l file handler s) = native_langs s"
  by (simp add: register_converse_intent_def add_event_def Let_def)

text \<open>
  Claim C10. Whatever was registered before, after a second call of
  \<open>register_converse_intent\<close> the matcher of every native language is a container
  created by that call: it holds the samples of the second intent alone when the
  language has the resource file, and nothing otherwise. No intent of the first call
  is left in it. On a skill that had no matchers before, the native languages are the
  only languages with a matcher.
\<close>

theorem register_converse_intent_replaces:
  "(lg \<in> set (native_langs s) \<longrightarrow>
     (\<exists>c. map_of (converse_matchers
                    (register_converse_intent l file2 handler2
                       (register_converse_intent l file1 handler1 s))) lg = Some c \<and>
          c = (case intent_file l lg file2 of
                 None \<Rightarrow> IntentContainer (\<not> truthy (case strict_intents s of None \<Rightarrow> PyBool False | Some v \<Rightarrow> v))
               | Some txt \<Rightarrow>
                   add_intent (converse_intent_name s file2) (read_samples txt)
                     (IntentContainer (\<not> truthy (case strict_intents s of None \<Rightarrow> PyBool False | Some v \<Rightarrow> v)))) \<and>
          set (map fst (intent_samples c)) \<subseteq> {converse_intent_name s file2})) \<and>
   (converse_matchers s = [] \<longrightarrow>
      fst ` set (converse_matchers
                   (register_converse_intent l file2 handler2
                      (register_converse_intent l file1 handler1 s))) = set (native_langs s))"
proof (intro conjI impI)
  assume h: "lg \<in> set (native_langs s)"
  let ?s1 = "register_converse_intent l file1 handler1 s"
  have a: "native_langs ?s1 = native_langs s" "strict_intents ?s1 = strict_intents s"
          "converse_intent_name ?s1 file2 = converse_intent_name s file2"
    by (simp_all add: register_converse_intent_def add_event_def Let_def converse_intent_name_def)
  have "map_of (converse_matchers (register_converse_intent l file2 handler2 ?s1)) lg =
        map_of (register_langs l (converse_intent_name s file2)
                  (\<not> truthy (case strict_intents s of None \<Rightarrow> PyBool False | Some v \<Rightarrow> v))
                  file2 (native_langs s) (converse_matchers ?s1)) lg"
    unfolding register_converse_intent_def [of l file2 handler2 ?s1]
    by (simp add: Let_def add_event_def a)
  with register_langs_member [OF h]
  show "\<exists>c. map_of (converse_matchers
                    (register_converse_intent l file2 handler2 ?s1)) lg = Some c \<and>
          c = (case intent_file l lg file2 of
                 None \<Rightarrow> IntentContainer (\<not> truthy (case strict_intents s of None \<Rightarrow> PyBool False | Some v \<Rightarrow> v))
               | Some txt \<Rightarrow>
                   add_intent (converse_intent_name s file2) (read_samples txt)
                     (IntentContainer (\<not> truthy (case strict_intents s of None \<Rightarrow> PyBool False | Some v \<Rightarrow> v)))) \<and>
          set (map fst (intent_samples c)) \<subseteq> {converse_intent_name s file2}"
    by (simp add: IntentContainer_def add_intent_def split: option.splits)
next
  assume "converse_matchers s = []"
  then show "fst ` set (converse_matchers
                   (register_converse_intent l file2 handler2
                      (register_converse_intent l file1 handler1 s))) = set (native_langs s)"
    by (simp only: register_converse_intent_keys register_converse_intent_native) simp
qed

theorem register_converse_intent_replaces_witness:
  "''en-GB'' \<in> set (native_langs sample_skill) \<and>
   map_of (converse_matchers
             (register_converse_intent sample_lib ''no.intent'' ''handle_no''
                (register_converse_intent sample_lib ''yes.intent'' ''handle_yes'' sample_skill))) ''en-GB''
     = Some \<lparr>fuzz = True, intent_samples = [(''demo.converse:no.intent'', [''no''])]\<rparr> \<and>
   converse_matchers sample_skill = [] \<and>
   fst ` set (converse_matchers
                (register_converse_intent sample_lib ''no.intent'' ''handle_no''
                   (register_converse_intent sample_lib ''yes.intent'' ''handle_yes'' sample_skill)))
     = {''en-GB''}"
  using register_converse_intent_replaces [of "''en-GB''" sample_skill sample_lib "''no.intent''" "''handle_no''" "''yes.intent''" "''handle_yes''"]
  by (simp add: sample_skill_def sample_lib_def sample_intent_file_def converse_intent_name_def
        IntentContainer_def add_intent_def read_samples_def strip_def is_space_def)

section \<open>Matching converse intents\<close>

text \<open>
  Claim C2 fails on the code. With the sample skill registered for \<^verbatim>\<open>en-GB\<close> and a
  request in \<^verbatim>\<open>en-US\<close>, the language resolves to \<^verbatim>\<open>en-GB\<close>, but the loop looks the
  matcher up under the skill's current language \<^verbatim>\<open>en-US\<close> and raises \<^verbatim>\<open>KeyError\<close>.
\<close>

theorem handle_converse_intents_wrong_key:
  "get_closest_lang sample_lib
     (register_converse_intent sample_lib ''yes.intent'' ''handle_yes'' sample_skill)
     (lang sample_lib (register_converse_intent sample_lib ''yes.intent'' ''handle_yes'' sample_skill)
        (Some (sample_request ''en-US'' [''yes''])))
     = Some ''en-GB''
   \<and> handle_converse_intents sample_lib (sample_request ''en-US'' [''yes''])
       (register_converse_intent sample_lib ''yes.intent'' ''handle_yes'' sample_skill)
     = Inl (KeyError ''en-US'')"
  by (simp add: handle_converse_intents_def get_closest_lang_def lang_def sample_lib_def
        sample_request_def sample_message_lang_def register_converse_intent_def Let_def
        add_event_def sample_skill_def sample_intent_file_def sample_distance_def
        data_utterances_def getitem_def converse_intent_name_def
        IntentContainer_def add_intent_def)

text \<open>
  The same failure in general: whenever the language resolves, the skill's current
  language has no matcher and the request has an utterance.
\<close>

lemma handle_converse_intents_KeyError:
  assumes "get_closest_lang l s (lang l s (Some m)) = Some c"
    and "map_of (converse_matchers s) (lang l s (Some m)) = None"
    and "data_utterances m = Inr (utt # utts)"
  shows "handle_converse_intents l m s = Inl (KeyError (lang l s (Some m)))"
  using assms by (simp add: handle_converse_intents_def getitem_def)

section \<open>Converse requests\<close>









section \<open>The wait loop\<close>

lemma emit_fields:
  "responses (emit m s) = responses s"
  "validated_responses (emit m s) = validated_responses s"
  "skill_id (emit m s) = skill_id s"
  "bus (emit m s) = bus s @ [m]"
  by (simp_all add: emit_def)

lemma speak_fields:
  "responses (speak l u e meta dug s) = responses s"
  "validated_responses (speak l u e meta dug s) = validated_responses s"
  "skill_id (speak l u e meta dug s) = skill_id s"
  by (simp_all add: speak_def Let_def emit_def)

lemma speak_dialog_fields:
  "responses (speak_dialog l key dat e dug s) = responses s"
  "validated_responses (speak_dialog l key dat e dug s) = validated_responses s"
  "skill_id (speak_dialog l key dat e dug s) = skill_id s"
  by (simp_all add: speak_dialog_def speak_fields split: option.splits)

lemma get_response_begin_fields:
  "responses (get_response_begin l dialog dat m s) = (responses s)(session_id l m \<mapsto> Some [])"
  "validated_responses (get_response_begin l dialog dat m s) = validated_responses s"
  "skill_id (get_response_begin l dialog dat m s) = skill_id s"
  by (simp_all add: get_response_begin_def Let_def emit_fields speak_dialog_fields)

lemma real_wait_begin_fields:
  "responses (real_wait_begin l m s) = responses s"
  "validated_responses (real_wait_begin l m s) = (validated_responses s)(session_id l m \<mapsto> PyList [])"
  "skill_id (real_wait_begin l m s) = skill_id s"
  by (simp_all add: real_wait_begin_def Let_def emit_fields)

text \<open>The ways a wait can go on a session whose pending slot exists.\<close>

lemma wait_cycle_empty:
  assumes "responses s sid = Some (Some [])"
  shows "wait_cycle l Timeout a m sid n s =
           (if n + 1 \<ge> num_retries a \<and> num_retries a \<ge> 0
            then Finished (stop_trying sid s)
            else Again (n + 1) (emit (reply l m ''mycroft.mic.listen'' []) s))"
  using assms
  by (simp add: wait_cycle_def get_response_wait_def reprompt_user_def stop_trying_def)

lemma wait_cycle_cancel:
  assumes "responses s sid \<noteq> None" and "is_cancel a u"
  shows "\<exists>s'. wait_cycle l (Heard (u # us)) a m sid n s = Finished s' \<and>
              responses s' sid = Some None \<and> validated_responses s' sid = Some PyNone \<and>
              bus s' = bus s \<and> skill_id s' = skill_id s"
  using assms
  by (simp add: wait_cycle_def get_response_wait_def handle_get_response_def
        validate_response_def reprompt_user_def)

lemma wait_cycle_accept:
  assumes "responses s sid \<noteq> None" and "\<not> is_cancel a u" and "truthy (validator a u)"
  shows "\<exists>s'. wait_cycle l (Heard (u # us)) a m sid n s = Finished s' \<and>
              responses s' sid = Some None \<and>
              validated_responses s' sid =
                Some (if validator a u = PyBool True then PyStr u else validator a u) \<and>
              bus s' = bus s \<and> skill_id s' = skill_id s"
  using assms
  by (simp add: wait_cycle_def get_response_wait_def handle_get_response_def
        validate_response_def reprompt_user_def Let_def)

lemma wait_cycle_reject:
  assumes "responses s sid \<noteq> None" and "\<not> is_cancel a u" and "\<not> truthy (validator a u)"
  shows "\<exists>s'. wait_cycle l (Heard (u # us)) a m sid n s =
                 Again (if truthy (on_fail a (u # us)) then 0 else n) s' \<and>
              responses s' sid = Some (Some []) \<and>
              validated_responses s' sid = validated_responses s sid"
  using assms
  by (simp add: wait_cycle_def get_response_wait_def handle_get_response_def
        validate_response_def reprompt_user_def Let_def speak_fields emit_fields)

lemma speak_bus:
  "\<exists>sm. bus (speak l u e meta dug s) = bus s @ [sm] \<and> msg_type sm = ''speak'' \<and>
        map_of (msg_data sm) ''utterance'' = Some u"
  by (cases dug) (simp_all add: speak_def Let_def emit_def forward_def)

lemma wait_cycle_reject_bus:
  assumes "responses s sid \<noteq> None" and "\<not> is_cancel a u" and "\<not> truthy (validator a u)"
  shows "(truthy (on_fail a (u # us)) \<longrightarrow>
           (\<exists>s' sm. wait_cycle l (Heard (u # us)) a m sid n s = Again 0 s' \<and>
                    bus s' = bus s @ [sm] \<and> msg_type sm = ''speak'' \<and>
                    map_of (msg_data sm) ''utterance'' = Some (on_fail a (u # us)))) \<and>
         (\<not> truthy (on_fail a (u # us)) \<longrightarrow>
           (\<exists>s'. wait_cycle l (Heard (u # us)) a m sid n s = Again n s' \<and>
                 responses s' sid = Some (Some []) \<and>
                 bus s' = bus s @ [reply l m ''mycroft.mic.listen'' []]))"
proof (intro conjI impI)
  let ?s2 = "s\<lparr>responses := (responses s)(sid \<mapsto> Some [])\<rparr>"
  assume t: "truthy (on_fail a (u # us))"
  with assms have w: "wait_cycle l (Heard (u # us)) a m sid n s =
      Again 0 (speak l (on_fail a (u # us)) True [] (Some m) ?s2)"
    by (simp add: wait_cycle_def get_response_wait_def handle_get_response_def
          validate_response_def reprompt_user_def Let_def)
  from speak_bus [of l "on_fail a (u # us)" True "[]" "Some m" ?s2] obtain sm where
    "bus (speak l (on_fail a (u # us)) True [] (Some m) ?s2) = bus s @ [sm]"
    "msg_type sm = ''speak''" "map_of (msg_data sm) ''utterance'' = Some (on_fail a (u # us))"
    by auto
  with w show "\<exists>s' sm. wait_cycle l (Heard (u # us)) a m sid n s = Again 0 s' \<and>
                    bus s' = bus s @ [sm] \<and> msg_type sm = ''speak'' \<and>
                    map_of (msg_data sm) ''utterance'' = Some (on_fail a (u # us))"
    by blast
next
  let ?s2 = "s\<lparr>responses := (responses s)(sid \<mapsto> Some [])\<rparr>"
  assume t: "\<not> truthy (on_fail a (u # us))"
  with assms have w: "wait_cycle l (Heard (u # us)) a m sid n s =
      Again n (emit (reply l m ''mycroft.mic.listen'' []) ?s2)"
    by (simp add: wait_cycle_def get_response_wait_def handle_get_response_def
          validate_response_def reprompt_user_def Let_def)
  have "responses (emit (reply l m ''mycroft.mic.listen'' []) ?s2) sid = Some (Some [])"
       "bus (emit (reply l m ''mycroft.mic.listen'' []) ?s2) = bus s @ [reply l m ''mycroft.mic.listen'' []]"
    by (simp_all add: emit_def)
  with w show "\<exists>s'. wait_cycle l (Heard (u # us)) a m sid n s = Again n s' \<and>
                 responses s' sid = Some (Some []) \<and>
                 bus s' = bus s @ [reply l m ''mycroft.mic.listen'' []]"
    by blast
qed

lemma wait_cycle_Again_slot:
  assumes "wait_cycle l ev a m sid n s = Again n' s'"
  shows "\<exists>r. responses s' sid = Some (Some r)"
proof -
  have rp: "\<And>rp k t. reprompt_user l m sid rp k t = Again n' s' \<Longrightarrow> \<exists>r. responses s' sid = Some (Some r)"
    by (auto simp: reprompt_user_def speak_fields emit_fields split: option.splits if_splits)
  from assms show ?thesis
    by (auto simp: wait_cycle_def split: sum.splits option.splits if_splits prod.splits dest: rp)
qed

lemma advance_slot:
  "advance j l env a m sid k n s = Some (n', s') \<Longrightarrow> \<exists>r. responses s sid = Some (Some r) \<Longrightarrow>
     \<exists>r. responses s' sid = Some (Some r)"
proof (induction j arbitrary: k n s)
  case 0
  then show ?case by simp
next
  case (Suc j)
  from Suc.prems(1) obtain n1 s1 where
    w: "wait_cycle l (env k) a m sid n s = Again n1 s1" and
    r: "advance j l env a m sid (Suc k) n1 s1 = Some (n', s')"
    by (cases "env k"; cases "wait_cycle l (env k) a m sid n s") simp_all
  from Suc.IH [OF r wait_cycle_Again_slot [OF w]] show ?case .
qed

lemma loop_advance:
  "advance j l env a m sid k n s = Some (n', s') \<Longrightarrow>
     real_wait_loop (j + fuel) l env a m sid k n s = real_wait_loop fuel l env a m sid (k + j) n' s'"
proof (induction j arbitrary: k n s)
  case 0
  then show ?case by simp
next
  case (Suc j)
  from Suc.prems(1) obtain n1 s1 where
    w: "wait_cycle l (env k) a m sid n s = Again n1 s1" and
    r: "advance j l env a m sid (Suc k) n1 s1 = Some (n', s')" and
    e: "\<forall>am. env k \<noteq> Aborted am"
    by (cases "env k"; cases "wait_cycle l (env k) a m sid n s") simp_all
  from e w have "real_wait_loop (Suc j + fuel) l env a m sid k n s =
        real_wait_loop (j + fuel) l env a m sid (Suc k) n1 s1"
    by (cases "env k") auto
  with Suc.IH [OF r] show ?case by simp
qed


lemma advance_silent:
  assumes "\<forall>k. env k = Timeout" and "responses s sid = Some (Some [])"
    and "num_retries a < 0 \<or> n + int j < num_retries a"
  shows "\<exists>s'. advance j l env a m sid k n s = Some (n + int j, s') \<and>
              responses s' sid = Some (Some []) \<and>
              validated_responses s' sid = validated_responses s sid"
  using assms
proof (induction j arbitrary: k n s)
  case 0
  then show ?case by simp
next
  case (Suc j)
  from Suc.prems have c: "\<not> (n + 1 \<ge> num_retries a \<and> num_retries a \<ge> 0)" by auto
  let ?s1 = "emit (reply l m ''mycroft.mic.listen'' []) s"
  from wait_cycle_empty [OF Suc.prems(2), of l a m n] c
  have w: "wait_cycle l Timeout a m sid n s = Again (n + 1) ?s1" by simp
  have r1: "responses ?s1 sid = Some (Some [])" using Suc.prems(2) by (simp add: emit_fields)
  have c1: "num_retries a < 0 \<or> (n + 1) + int j < num_retries a" using Suc.prems(3) by auto
  from Suc.IH [OF Suc.prems(1) r1 c1, of "Suc k"] obtain s' where
    a: "advance j l env a m sid (Suc k) (n + 1) ?s1 = Some (n + 1 + int j, s')" and
    b: "responses s' sid = Some (Some [])" and
    c: "validated_responses s' sid = validated_responses ?s1 sid" by blast
  from Suc.prems(1) have e: "env k = Timeout" by simp
  have "advance (Suc j) l env a m sid k n s = advance j l env a m sid (Suc k) (n + 1) ?s1"
    by (simp add: e w)
  with a have "advance (Suc j) l env a m sid k n s = Some (n + int (Suc j), s')"
    by (simp add: add.commute add.left_commute)
  moreover from c have "validated_responses s' sid = validated_responses s sid"
    by (simp add: emit_fields)
  ultimately show ?case using b by blast
qed

lemma loop_silent_waiting:
  assumes "\<forall>k. env k = Timeout" and "responses s sid = Some (Some [])"
    and "num_retries a < 0 \<or> n + int fuel < num_retries a"
  shows "real_wait_loop fuel l env a m sid k n s = None"
proof -
  from advance_silent [OF assms, of l m k] obtain s' where
    "advance fuel l env a m sid k n s = Some (n + int fuel, s')" by blast
  from loop_advance [OF this, of 0] show ?thesis by simp
qed

lemma begin_slot:
  "responses (real_wait_begin l m (get_response_begin l dialog dat m s)) (session_id l m) = Some (Some [])"
  by (simp add: real_wait_begin_fields get_response_begin_fields)

lemma get_response_waiting:
  assumes "real_wait_loop fuel l env (get_response_args l cv dialog dat vp ofp retries)
             (get_response_message s mp dug) (session_id l (get_response_message s mp dug)) 0 0
             (real_wait_begin l (get_response_message s mp dug)
                (get_response_begin l dialog dat (get_response_message s mp dug) s)) = None"
  shows "get_response fuel l env cv dialog dat vp ofp retries mp dug s = None"
  using assms by (simp add: get_response_def wait_response_def real_wait_response_def Let_def)

lemma get_response_returns:
  assumes adv: "reprompted j l env cv dialog dat vp ofp retries mp dug s = Some (n, s1)"
    and lp: "real_wait_loop (Suc fuel) l env (get_response_args l cv dialog dat vp ofp retries)
               (get_response_message s mp dug) (session_id l (get_response_message s mp dug)) j n s1
             = Some w"
    and pl: "poll_validated (session_id l (get_response_message s mp dug)) (worker_state w) = Some ans"
  shows "get_response (j + Suc fuel) l env cv dialog dat vp ofp retries mp dug s =
           Some (first_of_list ans,
                 emit (forward (get_response_message s mp dug) ''skill.converse.get_response.disable''
                         [(''skill_id'', PyStr (skill_id s))])
                   ((worker_state w)\<lparr>validated_responses :=
                       (validated_responses (worker_state w))
                         (session_id l (get_response_message s mp dug) := None)\<rparr>))"
proof -
  let ?m = "get_response_message s mp dug"
  let ?a = "get_response_args l cv dialog dat vp ofp retries"
  let ?s0 = "real_wait_begin l ?m (get_response_begin l dialog dat ?m s)"
  from adv have "advance j l env ?a ?m (session_id l ?m) 0 0 ?s0 = Some (n, s1)"
    by (simp add: reprompted_def Let_def)
  from loop_advance [OF this, of "Suc fuel"] lp
  have "real_wait_loop (j + Suc fuel) l env ?a ?m (session_id l ?m) 0 0 ?s0 = Some w"
    by simp
  then have "real_wait_response (j + Suc fuel) l env ?a ?m (get_response_begin l dialog dat ?m s) = Some w"
    by (simp add: real_wait_response_def)
  with pl have "wait_response (j + Suc fuel) l env ?a ?m (get_response_begin l dialog dat ?m s) =
      Some (first_of_list ans, (worker_state w)\<lparr>validated_responses :=
                       (validated_responses (worker_state w)) (session_id l ?m := None)\<rparr>)"
    by (simp add: wait_response_def Let_def)
  then show ?thesis
    unfolding get_response_def Let_def by simp
qed

lemma reprompted_slot:
  assumes "reprompted j l env cv dialog dat vp ofp retries mp dug s = Some (n, s1)"
  shows "\<exists>r. responses s1 (session_id l (get_response_message s mp dug)) = Some (Some r)"
proof -
  let ?m = "get_response_message s mp dug"
  from assms have a: "advance j l env (get_response_args l cv dialog dat vp ofp retries) ?m
      (session_id l ?m) 0 0 (real_wait_begin l ?m (get_response_begin l dialog dat ?m s)) = Some (n, s1)"
    by (simp add: reprompted_def Let_def)
  show ?thesis by (rule advance_slot [OF a]) (simp add: begin_slot)
qed



section \<open>Outcomes of a collection\<close>

text \<open>
  Claim C1 fails on the code. With \<^verbatim>\<open>num_retries = -1\<close> and no utterance ever arriving,
  the test \<^verbatim>\<open>num_fails >= num_retries and num_retries >= 0\<close> is never true, so the
  worker reprompts after every empty wait and \<open>get_response\<close> does not return, however
  many waits are allowed. The docstring of \<^verbatim>\<open>get_response\<close> promises a single retry.
\<close>

theorem get_response_unlimited_never_returns:
  "get_response fuel l silence cancel_voc dialog dat validator_p on_fail_p (- 1) message_p dug s = None"
proof (rule get_response_waiting, rule loop_silent_waiting)
  show "\<forall>k. silence k = Timeout" by (simp add: silence_def)
  show "responses (real_wait_begin l (get_response_message s message_p dug)
           (get_response_begin l dialog dat (get_response_message s message_p dug) s))
         (session_id l (get_response_message s message_p dug)) = Some (Some [])"
    by (rule begin_slot)
  show "num_retries (get_response_args l cancel_voc dialog dat validator_p on_fail_p (- 1)) < 0 \<or>
        0 + int fuel < num_retries (get_response_args l cancel_voc dialog dat validator_p on_fail_p (- 1))"
    by (simp add: get_response_args_def)
qed

text \<open>Every one of these waits ends in a reprompt: after \<open>j\<close> waits the counter is \<open>j\<close>.\<close>

lemma unlimited_reprompts:
  "\<exists>s'. reprompted j l silence cancel_voc dialog dat validator_p on_fail_p (- 1) message_p dug s
          = Some (int j, s')"
proof -
  let ?m = "get_response_message s message_p dug"
  let ?a = "get_response_args l cancel_voc dialog dat validator_p on_fail_p (- 1)"
  have "\<exists>s'. advance j l silence ?a ?m (session_id l ?m) 0 0
               (real_wait_begin l ?m (get_response_begin l dialog dat ?m s)) = Some (0 + int j, s') \<and>
              responses s' (session_id l ?m) = Some (Some []) \<and>
              validated_responses s' (session_id l ?m) =
                validated_responses (real_wait_begin l ?m (get_response_begin l dialog dat ?m s)) (session_id l ?m)"
    by (rule advance_silent) (simp_all add: silence_def begin_slot get_response_args_def)
  then show ?thesis by (auto simp: reprompted_def Let_def)
qed

text \<open>
  Claim C4, as the code has it. An empty wait adds one to the counter and ends the
  collection exactly when the counter reaches a non-negative \<^verbatim>\<open>num_retries\<close>; else
  the worker listens again. A wait whose utterance fails validation never adds to the
  counter: when \<^verbatim>\<open>on_fail\<close> gives a non-empty reprompt, that text is spoken and the
  counter is set to 0; when it gives an empty one, the worker only listens again and the
  counter keeps its value. With \<^verbatim>\<open>num_retries = 2\<close> and no input, \<open>get_response\<close> has
  not returned after one wait and returns \<^verbatim>\<open>None\<close> after the second.
\<close>

theorem retry_counter_and_exhaustion:
  "(responses s0 sid = Some (Some []) \<longrightarrow>
      wait_cycle l Timeout a m sid n s0 =
        (if n + 1 \<ge> num_retries a \<and> num_retries a \<ge> 0
         then Finished (stop_trying sid s0)
         else Again (n + 1) (emit (reply l m ''mycroft.mic.listen'' []) s0)) \<and>
      bus (emit (reply l m ''mycroft.mic.listen'' []) s0) =
        bus s0 @ [reply l m ''mycroft.mic.listen'' []] \<and>
      responses (stop_trying sid s0) sid = Some None \<and>
      validated_responses (stop_trying sid s0) sid = Some PyNone) \<and>
   (responses s0 sid \<noteq> None \<and> \<not> is_cancel a u \<and> \<not> truthy (validator a u) \<longrightarrow>
      (truthy (on_fail a (u # us)) \<longrightarrow>
         (\<exists>s' sm. wait_cycle l (Heard (u # us)) a m sid n s0 = Again 0 s' \<and>
                  bus s' = bus s0 @ [sm] \<and> msg_type sm = ''speak'' \<and>
                  map_of (msg_data sm) ''utterance'' = Some (on_fail a (u # us)))) \<and>
      (\<not> truthy (on_fail a (u # us)) \<longrightarrow>
         (\<exists>s'. wait_cycle l (Heard (u # us)) a m sid n s0 = Again n s' \<and>
               bus s' = bus s0 @ [reply l m ''mycroft.mic.listen'' []]))) \<and>
   ((\<forall>k. env k = Timeout) \<longrightarrow>
      get_response 1 l env cancel_voc dialog dat validator_p on_fail_p 2 message_p dug s = None \<and>
      (\<exists>s'. get_response (Suc (Suc fuel)) l env cancel_voc dialog dat validator_p on_fail_p 2
               message_p dug s = Some (PyNone, s')))"
proof (intro conjI)
  show "responses s0 sid = Some (Some []) \<longrightarrow>
      wait_cycle l Timeout a m sid n s0 =
        (if n + 1 \<ge> num_retries a \<and> num_retries a \<ge> 0
         then Finished (stop_trying sid s0)
         else Again (n + 1) (emit (reply l m ''mycroft.mic.listen'' []) s0)) \<and>
      bus (emit (reply l m ''mycroft.mic.listen'' []) s0) =
        bus s0 @ [reply l m ''mycroft.mic.listen'' []] \<and>
      responses (stop_trying sid s0) sid = Some None \<and>
      validated_responses (stop_trying sid s0) sid = Some PyNone"
    by (simp add: wait_cycle_empty emit_def stop_trying_def)
next
  show "responses s0 sid \<noteq> None \<and> \<not> is_cancel a u \<and> \<not> truthy (validator a u) \<longrightarrow>
      (truthy (on_fail a (u # us)) \<longrightarrow>
         (\<exists>s' sm. wait_cycle l (Heard (u # us)) a m sid n s0 = Again 0 s' \<and>
                  bus s' = bus s0 @ [sm] \<and> msg_type sm = ''speak'' \<and>
                  map_of (msg_data sm) ''utterance'' = Some (on_fail a (u # us)))) \<and>
      (\<not> truthy (on_fail a (u # us)) \<longrightarrow>
         (\<exists>s'. wait_cycle l (Heard (u # us)) a m sid n s0 = Again n s' \<and>
               bus s' = bus s0 @ [reply l m ''mycroft.mic.listen'' []]))"
  proof
    assume "responses s0 sid \<noteq> None \<and> \<not> is_cancel a u \<and> \<not> truthy (validator a u)"
    then have h: "responses s0 sid \<noteq> None" "\<not> is_cancel a u" "\<not> truthy (validator a u)"
      by simp_all
    from wait_cycle_reject_bus [OF h, of us l m n]
    show "(truthy (on_fail a (u # us)) \<longrightarrow>
         (\<exists>s' sm. wait_cycle l (Heard (u # us)) a m sid n s0 = Again 0 s' \<and>
                  bus s' = bus s0 @ [sm] \<and> msg_type sm = ''speak'' \<and>
                  map_of (msg_data sm) ''utterance'' = Some (on_fail a (u # us)))) \<and>
      (\<not> truthy (on_fail a (u # us)) \<longrightarrow>
         (\<exists>s'. wait_cycle l (Heard (u # us)) a m sid n s0 = Again n s' \<and>
               bus s' = bus s0 @ [reply l m ''mycroft.mic.listen'' []]))"
      by blast
  qed
next
  show "(\<forall>k. env k = Timeout) \<longrightarrow>
      get_response 1 l env cancel_voc dialog dat validator_p on_fail_p 2 message_p dug s = None \<and>
      (\<exists>s'. get_response (Suc (Suc fuel)) l env cancel_voc dialog dat validator_p on_fail_p 2
               message_p dug s = Some (PyNone, s'))"
  proof (intro impI conjI)
    let ?m = "get_response_message s message_p dug"
    let ?a = "get_response_args l cancel_voc dialog dat validator_p on_fail_p 2"
    let ?sid = "session_id l ?m"
    let ?s0 = "real_wait_begin l ?m (get_response_begin l dialog dat ?m s)"
    assume e: "\<forall>k. env k = Timeout"
    have nr: "num_retries ?a = 2" by (simp add: get_response_args_def)
    have "real_wait_loop 1 l env ?a ?m ?sid 0 0 ?s0 = None"
      by (rule loop_silent_waiting [OF e begin_slot]) (simp add: nr)
    then show "get_response 1 l env cancel_voc dialog dat validator_p on_fail_p 2 message_p dug s = None"
      by (rule get_response_waiting)
    have "\<exists>s'. advance (Suc 0) l env ?a ?m ?sid 0 0 ?s0 = Some (0 + int (Suc 0), s') \<and>
                responses s' ?sid = Some (Some []) \<and>
                validated_responses s' ?sid = validated_responses ?s0 ?sid"
      by (rule advance_silent [OF e begin_slot]) (simp add: nr)
    then obtain s1 where
      adv: "advance (Suc 0) l env ?a ?m ?sid 0 0 ?s0 = Some (1, s1)" and
      slot: "responses s1 ?sid = Some (Some [])" by (auto simp del: advance.simps)
    from adv have rp: "reprompted (Suc 0) l env cancel_voc dialog dat validator_p on_fail_p 2 message_p dug s
        = Some (1, s1)" by (simp add: reprompted_def Let_def del: advance.simps)
    from wait_cycle_empty [OF slot, of l ?a ?m 1] nr
    have w: "wait_cycle l Timeout ?a ?m ?sid 1 s1 = Finished (stop_trying ?sid s1)" by simp
    from e have e1: "env (Suc 0) = Timeout" by simp
    have lp: "real_wait_loop (Suc fuel) l env ?a ?m ?sid (Suc 0) 1 s1 = Some (Returned (stop_trying ?sid s1))"
      by (simp add: e1 w)
    have pl: "poll_validated ?sid (worker_state (Returned (stop_trying ?sid s1))) = Some PyNone"
      by (simp add: poll_validated_def stop_trying_def)
    from get_response_returns [OF rp lp pl]
    show "\<exists>s'. get_response (Suc (Suc fuel)) l env cancel_voc dialog dat validator_p on_fail_p 2
                 message_p dug s = Some (PyNone, s')"
      by simp
  qed
qed

text \<open>
  Claim C5, as the code has it. When the utterance heard is not a cancel phrase and the
  validator returns a truthy value for it, \<open>get_response\<close> returns the utterance if the
  value is \<^verbatim>\<open>True\<close> (for a non-empty utterance), and otherwise the value, of which a
  non-empty list is replaced by its first element; every value that is not a list is
  returned as it is. The waits before may have ended in any number of reprompts.
\<close>

theorem get_response_validated_value:
  "(reprompted j l env cancel_voc dialog dat (Some v) on_fail_p retries message_p dug s \<noteq> None \<and>
    env j = Heard (u # us) \<and> \<not> cancel_voc u \<and> truthy (v u) \<and>
    (u \<noteq> [] \<or> v u \<noteq> PyBool True) \<longrightarrow>
      (\<exists>s'. get_response (j + Suc fuel) l env cancel_voc dialog dat (Some v) on_fail_p retries
               message_p dug s =
             Some (if v u = PyBool True then PyStr u else first_of_list (v u), s'))) \<and>
   ((\<forall>xs. v u \<noteq> PyList xs) \<longrightarrow> first_of_list (v u) = v u) \<and>
   (v u = PyList (x # xs) \<longrightarrow> first_of_list (v u) = x)"
proof (intro conjI impI)
  let ?m = "get_response_message s message_p dug"
  let ?a = "get_response_args l cancel_voc dialog dat (Some v) on_fail_p retries"
  let ?sid = "session_id l ?m"
  let ?val = "if v u = PyBool True then PyStr u else v u"
  assume h: "reprompted j l env cancel_voc dialog dat (Some v) on_fail_p retries message_p dug s \<noteq> None \<and>
    env j = Heard (u # us) \<and> \<not> cancel_voc u \<and> truthy (v u) \<and>
    (u \<noteq> [] \<or> v u \<noteq> PyBool True)"
  then obtain n s1 where
    adv: "reprompted j l env cancel_voc dialog dat (Some v) on_fail_p retries message_p dug s = Some (n, s1)"
    by auto
  from reprompted_slot [OF adv] have slot: "responses s1 ?sid \<noteq> None" by auto
  from h have c: "\<not> is_cancel ?a u" and t: "truthy (validator ?a u)" and va: "validator ?a u = v u"
    by (simp_all add: get_response_args_def)
  from wait_cycle_accept [OF slot c t, of l us ?m n] va obtain s2 where
    w: "wait_cycle l (Heard (u # us)) ?a ?m ?sid n s1 = Finished s2" and
    vs: "validated_responses s2 ?sid = Some ?val" by auto
  from h w have lp: "real_wait_loop (Suc fuel) l env ?a ?m ?sid j n s1 = Some (Returned s2)"
    by simp
  from h have "truthy ?val" by auto
  with vs have pl: "poll_validated ?sid (worker_state (Returned s2)) = Some ?val"
    by (simp add: poll_validated_def)
  have "first_of_list ?val = (if v u = PyBool True then PyStr u else first_of_list (v u))"
    by simp
  with get_response_returns [OF adv lp pl]
  show "\<exists>s'. get_response (j + Suc fuel) l env cancel_voc dialog dat (Some v) on_fail_p retries
               message_p dug s =
             Some (if v u = PyBool True then PyStr u else first_of_list (v u), s')"
    by simp
next
  assume "\<forall>xs. v u \<noteq> PyList xs"
  then show "first_of_list (v u) = v u" by (cases "v u") simp_all
next
  assume "v u = PyList (x # xs)"
  then show "first_of_list (v u) = x" by simp
qed

text \<open>
  Claim C6. A cancel phrase makes \<open>validate_response\<close> write the cancelled value into
  both slots without consulting the validator, and \<open>get_response\<close> returns \<^verbatim>\<open>None\<close>,
  whatever validator was supplied.
\<close>

theorem get_response_cancel:
  "(is_cancel a u \<longrightarrow>
      validate_response (u # us) sid a s0 =
        Inr (PyNone, s0\<lparr>responses := (responses s0)(sid \<mapsto> None),
                        validated_responses := (validated_responses s0)(sid \<mapsto> PyNone)\<rparr>)) \<and>
   (reprompted j l env cancel_voc dialog dat validator_p on_fail_p retries message_p dug s \<noteq> None \<and>
    env j = Heard (u # us) \<and> cancel_voc u \<longrightarrow>
      (\<exists>s'. get_response (j + Suc fuel) l env cancel_voc dialog dat validator_p on_fail_p retries
               message_p dug s = Some (PyNone, s')))"
proof (intro conjI impI)
  assume "is_cancel a u"
  then show "validate_response (u # us) sid a s0 =
        Inr (PyNone, s0\<lparr>responses := (responses s0)(sid \<mapsto> None),
                        validated_responses := (validated_responses s0)(sid \<mapsto> PyNone)\<rparr>)"
    by (simp add: validate_response_def)
next
  let ?m = "get_response_message s message_p dug"
  let ?a = "get_response_args l cancel_voc dialog dat validator_p on_fail_p retries"
  let ?sid = "session_id l ?m"
  assume h: "reprompted j l env cancel_voc dialog dat validator_p on_fail_p retries message_p dug s \<noteq> None \<and>
    env j = Heard (u # us) \<and> cancel_voc u"
  then obtain n s1 where
    adv: "reprompted j l env cancel_voc dialog dat validator_p on_fail_p retries message_p dug s = Some (n, s1)"
    by auto
  from reprompted_slot [OF adv] have slot: "responses s1 ?sid \<noteq> None" by auto
  from h have c: "is_cancel ?a u" by (simp add: get_response_args_def)
  from wait_cycle_cancel [OF slot c, of l us ?m n] obtain s2 where
    w: "wait_cycle l (Heard (u # us)) ?a ?m ?sid n s1 = Finished s2" and
    v: "validated_responses s2 ?sid = Some PyNone" by blast
  from h w have lp: "real_wait_loop (Suc fuel) l env ?a ?m ?sid j n s1 = Some (Returned s2)"
    by simp
  from v have pl: "poll_validated ?sid (worker_state (Returned s2)) = Some PyNone"
    by (simp add: poll_validated_def)
  from get_response_returns [OF adv lp pl]
  show "\<exists>s'. get_response (j + Suc fuel) l env cancel_voc dialog dat validator_p on_fail_p retries
               message_p dug s = Some (PyNone, s')"
    by simp
qed


section \<open>The outcomes on the sample skill\<close>

theorem retry_counter_and_exhaustion_witness:
  "wait_cycle sample_lib Timeout sample_args sample_listen ''default'' 0 waiting_skill =
     Again 1 (emit (reply sample_lib sample_listen ''mycroft.mic.listen'' []) waiting_skill)
   \<and> wait_cycle sample_lib Timeout sample_args sample_listen ''default'' 1 waiting_skill =
     Finished (stop_trying ''default'' waiting_skill)
   \<and> (\<exists>s' sm. wait_cycle sample_lib (Heard [''maybe'']) sample_args sample_listen ''default'' 1
                 waiting_skill = Again 0 s' \<and>
               bus s' = [sm] \<and> msg_type sm = ''speak'' \<and>
               map_of (msg_data sm) ''utterance'' = Some (PyStr ''please repeat''))
   \<and> (\<exists>s'. wait_cycle sample_lib (Heard [''maybe''])
               (get_response_args sample_lib sample_cancel [] [] (Some yes_validator) NoOnFail 5)
               sample_listen ''default'' 1 waiting_skill = Again 1 s' \<and>
            bus s' = [reply sample_lib sample_listen ''mycroft.mic.listen'' []])
   \<and> get_response 1 sample_lib silence sample_cancel [] [] None NoOnFail 2 None None sample_skill = None
   \<and> map_option fst (get_response 2 sample_lib silence sample_cancel [] [] None NoOnFail 2 None None
                       sample_skill) = Some PyNone"
proof -
  let ?d = "get_response_args sample_lib sample_cancel [] [] (Some yes_validator) NoOnFail 5"
  have h1: "responses waiting_skill ''default'' = Some (Some [])"
    and bw: "bus waiting_skill = []"
    by (simp_all add: waiting_skill_def sample_skill_def)
  have h2: "responses waiting_skill ''default'' \<noteq> None \<and> \<not> is_cancel sample_args ''maybe'' \<and>
            \<not> truthy (validator sample_args ''maybe'')"
    by (simp add: waiting_skill_def sample_args_def sample_cancel_def yes_validator_def)
  have h2d: "responses waiting_skill ''default'' \<noteq> None \<and> \<not> is_cancel ?d ''maybe'' \<and>
            \<not> truthy (validator ?d ''maybe'')"
    by (simp add: waiting_skill_def get_response_args_def sample_cancel_def yes_validator_def)
  have h3: "\<forall>k. silence k = Timeout" by (simp add: silence_def)
  have nr: "num_retries sample_args = 2"
    and ofl: "on_fail sample_args [''maybe''] = PyStr ''please repeat''"
    by (simp_all add: sample_args_def sample_on_fail_def)
  have ofd: "\<not> truthy (on_fail ?d [''maybe''])"
    by (simp add: get_response_args_def on_fail_default_def render_or_text_def sample_lib_def)
  from retry_counter_and_exhaustion [where ?s0.0 = waiting_skill and sid = "''default''"
      and l = sample_lib and a = sample_args and m = sample_listen and n = 0] h1 nr
  have a: "wait_cycle sample_lib Timeout sample_args sample_listen ''default'' 0 waiting_skill =
     Again 1 (emit (reply sample_lib sample_listen ''mycroft.mic.listen'' []) waiting_skill)"
    by simp
  from retry_counter_and_exhaustion [where ?s0.0 = waiting_skill and sid = "''default''"
      and l = sample_lib and a = sample_args and m = sample_listen and n = 1] h1 nr
  have b: "wait_cycle sample_lib Timeout sample_args sample_listen ''default'' 1 waiting_skill =
     Finished (stop_trying ''default'' waiting_skill)"
    by simp
  from retry_counter_and_exhaustion [where ?s0.0 = waiting_skill and sid = "''default''"
      and l = sample_lib and a = sample_args and m = sample_listen and n = 1
      and u = "''maybe''" and us = "[]"] h2 ofl bw
  have c: "\<exists>s' sm. wait_cycle sample_lib (Heard [''maybe'']) sample_args sample_listen ''default'' 1
                 waiting_skill = Again 0 s' \<and>
               bus s' = [sm] \<and> msg_type sm = ''speak'' \<and>
               map_of (msg_data sm) ''utterance'' = Some (PyStr ''please repeat'')"
    by simp
  from retry_counter_and_exhaustion [where ?s0.0 = waiting_skill and sid = "''default''"
      and l = sample_lib and a = ?d and m = sample_listen and n = 1
      and u = "''maybe''" and us = "[]"] h2d ofd bw
  have c2: "\<exists>s'. wait_cycle sample_lib (Heard [''maybe'']) ?d sample_listen ''default'' 1
                 waiting_skill = Again 1 s' \<and>
            bus s' = [reply sample_lib sample_listen ''mycroft.mic.listen'' []]"
    by simp
  from retry_counter_and_exhaustion [where env = silence and l = sample_lib
      and cancel_voc = sample_cancel and dialog = "[]" and dat = "[]" and validator_p = None
      and on_fail_p = NoOnFail and message_p = None and dug = None and s = sample_skill
      and fuel = 0] h3
  have d: "get_response 1 sample_lib silence sample_cancel [] [] None NoOnFail 2 None None sample_skill = None
     \<and> map_option fst (get_response 2 sample_lib silence sample_cancel [] [] None NoOnFail 2 None None
                       sample_skill) = Some PyNone"
    by (auto simp: numeral_2_eq_2)
  from a b c c2 d show ?thesis by blast
qed

text \<open>
  Claim C4 as stated fails. With the default arguments (no dialog, no \<^verbatim>\<open>on_fail\<close>) the
  reprompt after a failed validation is the empty text: the worker emits
  \<^verbatim>\<open>mycroft.mic.listen\<close> and the counter stays at 1. After a timeout and a rejected
  utterance the counter of the collection is 1, not 0.
\<close>

theorem retry_counter_reset_counterexample:
  "(case wait_cycle sample_lib (Heard [''maybe''])
           (get_response_args sample_lib sample_cancel [] [] (Some yes_validator) NoOnFail 5)
           sample_listen ''default'' 1 waiting_skill of
      Again n s' \<Rightarrow> n = 1 \<and> bus s' = [reply sample_lib sample_listen ''mycroft.mic.listen'' []]
    | Finished s' \<Rightarrow> False
    | Failed e s' \<Rightarrow> False)
   \<and> map_option fst
        (reprompted (Suc (Suc 0)) sample_lib timeout_then_maybe sample_cancel [] []
           (Some yes_validator) NoOnFail 5 None None sample_skill) = Some 1"
proof
  let ?d = "get_response_args sample_lib sample_cancel [] [] (Some yes_validator) NoOnFail 5"
  have h: "responses waiting_skill ''default'' \<noteq> None" "\<not> is_cancel ?d ''maybe''"
          "\<not> truthy (validator ?d ''maybe'')"
    by (simp_all add: waiting_skill_def get_response_args_def sample_cancel_def yes_validator_def)
  have ofd: "\<not> truthy (on_fail ?d [''maybe''])"
    by (simp add: get_response_args_def on_fail_default_def render_or_text_def sample_lib_def)
  have bw: "bus waiting_skill = []" by (simp add: waiting_skill_def sample_skill_def)
  from wait_cycle_reject_bus [OF h, of "[]" sample_lib sample_listen 1] ofd bw
  obtain s' where "wait_cycle sample_lib (Heard [''maybe'']) ?d sample_listen ''default'' 1
                     waiting_skill = Again 1 s'"
    "bus s' = [reply sample_lib sample_listen ''mycroft.mic.listen'' []]" by auto
  then show "case wait_cycle sample_lib (Heard [''maybe'']) ?d sample_listen ''default'' 1 waiting_skill of
      Again n s' \<Rightarrow> n = 1 \<and> bus s' = [reply sample_lib sample_listen ''mycroft.mic.listen'' []]
    | Finished s' \<Rightarrow> False
    | Failed e s' \<Rightarrow> False"
    by simp
next
  let ?d = "get_response_args sample_lib sample_cancel [] [] (Some yes_validator) NoOnFail 5"
  let ?m = "get_response_message sample_skill None None"
  let ?sid = "session_id sample_lib ?m"
  let ?s0 = "real_wait_begin sample_lib ?m (get_response_begin sample_lib [] [] ?m sample_skill)"
  let ?s1 = "emit (reply sample_lib ?m ''mycroft.mic.listen'' []) ?s0"
  have nr: "num_retries ?d = 5" by (simp add: get_response_args_def)
  have w0: "wait_cycle sample_lib Timeout ?d ?m ?sid 0 ?s0 = Again 1 ?s1"
    by (simp add: wait_cycle_empty [OF begin_slot] nr)
  have slot1: "responses ?s1 ?sid \<noteq> None" by (simp add: emit_fields begin_slot)
  have c: "\<not> is_cancel ?d ''maybe''" "\<not> truthy (validator ?d ''maybe'')"
    by (simp_all add: get_response_args_def sample_cancel_def yes_validator_def)
  have ofd: "\<not> truthy (on_fail ?d [''maybe''])"
    by (simp add: get_response_args_def on_fail_default_def render_or_text_def sample_lib_def)
  from wait_cycle_reject_bus [OF slot1 c, of "[]" sample_lib ?m 1] ofd
  obtain s2 where w1: "wait_cycle sample_lib (Heard [''maybe'']) ?d ?m ?sid 1 ?s1 = Again 1 s2"
    by auto
  have e0: "timeout_then_maybe 0 = Timeout" and e1: "timeout_then_maybe (Suc 0) = Heard [''maybe'']"
    by (simp_all add: timeout_then_maybe_def)
  have "advance (Suc (Suc 0)) sample_lib timeout_then_maybe ?d ?m ?sid 0 0 ?s0 = Some (1, s2)"
    by (simp add: e0 e1 w0 w1)
  then show "map_option fst
        (reprompted (Suc (Suc 0)) sample_lib timeout_then_maybe sample_cancel [] []
           (Some yes_validator) NoOnFail 5 None None sample_skill) = Some 1"
    by (simp add: reprompted_def Let_def del: advance.simps)
qed


theorem get_response_validated_value_witness:
  "map_option fst (get_response 1 sample_lib (hears [''yeah sure'']) sample_cancel [] []
                     (Some yes_validator) NoOnFail (- 1) None None sample_skill) = Some (PyStr ''yes'')
   \<and> map_option fst (get_response 1 sample_lib (hears [''hello'']) sample_cancel [] []
                     (Some true_validator) NoOnFail (- 1) None None sample_skill) = Some (PyStr ''hello'')"
proof -
  have h1: "reprompted 0 sample_lib (hears [''yeah sure'']) sample_cancel [] [] (Some yes_validator)
              NoOnFail (- 1) None None sample_skill \<noteq> None \<and>
            hears [''yeah sure''] 0 = Heard (''yeah sure'' # []) \<and> \<not> sample_cancel ''yeah sure'' \<and>
            truthy (yes_validator ''yeah sure'') \<and>
            (''yeah sure'' \<noteq> [] \<or> yes_validator ''yeah sure'' \<noteq> PyBool True)"
    by (simp add: reprompted_def Let_def hears_def sample_cancel_def yes_validator_def)
  have h2: "reprompted 0 sample_lib (hears [''hello'']) sample_cancel [] [] (Some true_validator)
              NoOnFail (- 1) None None sample_skill \<noteq> None \<and>
            hears [''hello''] 0 = Heard (''hello'' # []) \<and> \<not> sample_cancel ''hello'' \<and>
            truthy (true_validator ''hello'') \<and>
            (''hello'' \<noteq> [] \<or> true_validator ''hello'' \<noteq> PyBool True)"
    by (simp add: reprompted_def Let_def hears_def sample_cancel_def true_validator_def)
  from get_response_validated_value [where j = 0 and l = sample_lib and env = "hears [''yeah sure'']"
      and cancel_voc = sample_cancel and dialog = "[]" and dat = "[]" and v = yes_validator
      and on_fail_p = NoOnFail and retries = "- 1" and message_p = None and dug = None
      and s = sample_skill and u = "''yeah sure''" and us = "[]" and fuel = 0] h1
  have a: "map_option fst (get_response 1 sample_lib (hears [''yeah sure'']) sample_cancel [] []
                     (Some yes_validator) NoOnFail (- 1) None None sample_skill) = Some (PyStr ''yes'')"
    by (auto simp: yes_validator_def)
  from get_response_validated_value [where j = 0 and l = sample_lib and env = "hears [''hello'']"
      and cancel_voc = sample_cancel and dialog = "[]" and dat = "[]" and v = true_validator
      and on_fail_p = NoOnFail and retries = "- 1" and message_p = None and dug = None
      and s = sample_skill and u = "''hello''" and us = "[]" and fuel = 0] h2
  have b: "map_option fst (get_response 1 sample_lib (hears [''hello'']) sample_cancel [] []
                     (Some true_validator) NoOnFail (- 1) None None sample_skill) = Some (PyStr ''hello'')"
    by (auto simp: true_validator_def)
  from a b show ?thesis by simp
qed

text \<open>
  Claim C5 as stated fails. A validator that answers with the list \<^verbatim>\<open>['yes', 'no']\<close>
  makes \<open>get_response\<close> return \<^verbatim>\<open>'yes'\<close>, not the list. And when the utterance is the
  empty string and the validator answers \<^verbatim>\<open>True\<close>, the validated slot holds the empty
  string, which the poll loop takes for no answer yet: \<open>get_response\<close> never returns.
\<close>

theorem get_response_list_counterexample:
  "map_option fst (get_response 1 sample_lib (hears [''yeah sure'']) sample_cancel [] []
                     (Some list_validator) NoOnFail (- 1) None None sample_skill) = Some (PyStr ''yes'')
   \<and> list_validator ''yeah sure'' = PyList [PyStr ''yes'', PyStr ''no'']
   \<and> (\<forall>fuel. get_response fuel sample_lib (hears [[]]) sample_cancel [] []
                 (Some true_validator) NoOnFail (- 1) None None sample_skill = None)"
proof (intro conjI allI)
  let ?m = "get_response_message sample_skill None None"
  let ?a = "get_response_args sample_lib sample_cancel [] [] (Some list_validator) NoOnFail (- 1)"
  let ?sid = "session_id sample_lib ?m"
  let ?s0 = "real_wait_begin sample_lib ?m (get_response_begin sample_lib [] [] ?m sample_skill)"
  have adv: "reprompted 0 sample_lib (hears [''yeah sure'']) sample_cancel [] [] (Some list_validator)
               NoOnFail (- 1) None None sample_skill = Some (0, ?s0)"
    by (simp add: reprompted_def Let_def)
  have slot: "responses ?s0 ?sid \<noteq> None" by (simp add: begin_slot)
  have c: "\<not> is_cancel ?a ''yeah sure''" by (simp add: get_response_args_def sample_cancel_def)
  have t: "truthy (validator ?a ''yeah sure'')" by (simp add: get_response_args_def list_validator_def)
  from wait_cycle_accept [OF slot c t, of sample_lib "[]" ?m 0] obtain s2 where
    w: "wait_cycle sample_lib (Heard [''yeah sure'']) ?a ?m ?sid 0 ?s0 = Finished s2" and
    vs: "validated_responses s2 ?sid = Some (PyList [PyStr ''yes'', PyStr ''no''])"
    by (auto simp: get_response_args_def list_validator_def)
  have lp: "real_wait_loop (Suc 0) sample_lib (hears [''yeah sure'']) ?a ?m ?sid 0 0 ?s0 = Some (Returned s2)"
    by (simp add: hears_def w)
  have pl: "poll_validated ?sid (worker_state (Returned s2)) = Some (PyList [PyStr ''yes'', PyStr ''no''])"
    by (simp add: poll_validated_def vs)
  from get_response_returns [OF adv lp pl]
  show "map_option fst (get_response 1 sample_lib (hears [''yeah sure'']) sample_cancel [] []
                     (Some list_validator) NoOnFail (- 1) None None sample_skill) = Some (PyStr ''yes'')"
    by simp
next
  show "list_validator ''yeah sure'' = PyList [PyStr ''yes'', PyStr ''no'']"
    by (simp add: list_validator_def)
next
  fix fuel
  let ?m = "get_response_message sample_skill None None"
  let ?a = "get_response_args sample_lib sample_cancel [] [] (Some true_validator) NoOnFail (- 1)"
  let ?sid = "session_id sample_lib ?m"
  let ?s0 = "real_wait_begin sample_lib ?m (get_response_begin sample_lib [] [] ?m sample_skill)"
  show "get_response fuel sample_lib (hears [[]]) sample_cancel [] []
          (Some true_validator) NoOnFail (- 1) None None sample_skill = None"
  proof (cases fuel)
    case 0
    then show ?thesis
      by (simp add: get_response_def wait_response_def real_wait_response_def Let_def)
  next
    case (Suc f)
    have slot: "responses ?s0 ?sid \<noteq> None" by (simp add: begin_slot)
    have c: "\<not> is_cancel ?a []" by (simp add: get_response_args_def sample_cancel_def)
    have t: "truthy (validator ?a [])" by (simp add: get_response_args_def true_validator_def)
    from wait_cycle_accept [OF slot c t, of sample_lib "[]" ?m 0] obtain s2 where
      w: "wait_cycle sample_lib (Heard [[]]) ?a ?m ?sid 0 ?s0 = Finished s2" and
      vs: "validated_responses s2 ?sid = Some (PyStr [])"
      by (auto simp: get_response_args_def true_validator_def)
    have lp: "real_wait_loop (Suc f) sample_lib (hears [[]]) ?a ?m ?sid 0 0 ?s0 = Some (Returned s2)"
      by (simp add: hears_def w)
    have pl: "poll_validated ?sid s2 = None"
      by (simp add: poll_validated_def vs)
    show ?thesis
      unfolding Suc get_response_def wait_response_def real_wait_response_def Let_def lp
      by (simp add: pl)
  qed
qed

theorem get_response_cancel_witness:
  "validate_response [''cancel''] ''default'' sample_args waiting_skill =
     Inr (PyNone, waiting_skill\<lparr>responses := (responses waiting_skill)(''default'' \<mapsto> None),
            validated_responses := (validated_responses waiting_skill)(''default'' \<mapsto> PyNone)\<rparr>)
   \<and> map_option fst (get_response 1 sample_lib (hears [''cancel'']) sample_cancel [] []
                        (Some true_validator) NoOnFail (- 1) None None sample_skill) = Some PyNone"
proof -
  have h1: "is_cancel sample_args ''cancel''"
    by (simp add: sample_args_def sample_cancel_def)
  have h2: "reprompted 0 sample_lib (hears [''cancel'']) sample_cancel [] [] (Some true_validator)
              NoOnFail (- 1) None None sample_skill \<noteq> None \<and>
            hears [''cancel''] 0 = Heard (''cancel'' # []) \<and> sample_cancel ''cancel''"
    by (simp add: reprompted_def Let_def hears_def sample_cancel_def)
  from get_response_cancel [where a = sample_args and u = "''cancel''" and us = "[]"
      and sid = "''default''" and ?s0.0 = waiting_skill and j = 0 and l = sample_lib
      and env = "hears [''cancel'']" and cancel_voc = sample_cancel and dialog = "[]" and dat = "[]"
      and validator_p = "Some true_validator" and on_fail_p = NoOnFail and retries = "- 1"
      and message_p = None and dug = None and s = sample_skill and fuel = 0] h1 h2
  show ?thesis by auto
qed

end
